theory Spec2Isabelle
  imports Main "HOL-Library.Code_Target_Numeral"
begin

section \<open>Python values the core relies on\<close>

text \<open>
  Exceptions are values. Only the class of an exception and its message matter to the
  handlers of the core: \<open>except Exception\<close> catches every class below \<open>Exception\<close>,
  and lets \<open>asyncio.CancelledError\<close>, \<open>KeyboardInterrupt\<close> and \<open>SystemExit\<close> pass,
  which derive from \<open>BaseException\<close> only.
\<close>

datatype exc_class =
  ValueError | IndexError | RuntimeError | OSError | OtherException
  | CancelledError | KeyboardInterrupt | SystemExit

datatype py_exc = Raised exc_class string

fun is_Exception :: "py_exc \<Rightarrow> bool" where
  "is_Exception (Raised c m) = (c \<noteq> CancelledError \<and> c \<noteq> KeyboardInterrupt \<and> c \<noteq> SystemExit)"

fun str_exc :: "py_exc \<Rightarrow> string" where
  "str_exc (Raised c m) = m"

text \<open>\<open>str(n)\<close> for an integer \<open>n\<close>, as the f-strings of the core format it.\<close>

fun str_nat :: "nat \<Rightarrow> string" where
  "str_nat n = (if n < 10 then [''0123456789'' ! n]
                else str_nat (n div 10) @ [''0123456789'' ! (n mod 10)])"

declare str_nat.simps [simp del]

definition str_int :: "int \<Rightarrow> string" where
  "str_int i = (if i < 0 then CHR ''-'' # str_nat (nat (- i)) else str_nat (nat i))"

text \<open>\<open>sep.join(xs)\<close>.\<close>

fun join :: "string \<Rightarrow> string list \<Rightarrow> string" where
  "join sep [] = []"
| "join sep [x] = x"
| "join sep (x # y # ys) = x @ sep @ join sep (y # ys)"

text \<open>\<open>s.split(c)\<close> for a one-character separator: never empty, one more piece than separators.\<close>

fun split_chr :: "char \<Rightarrow> string \<Rightarrow> string list" where
  "split_chr c [] = [[]]"
| "split_chr c (x # xs) =
     (if x = c then [] # split_chr c xs
      else (case split_chr c xs of [] \<Rightarrow> [[x]] | p # ps \<Rightarrow> (x # p) # ps))"

text \<open>
  Dictionaries with string keys whose values are integers or strings, in insertion order:
  \<open>d.get(k)\<close> is \<open>map_of d k\<close>, \<open>d[k] = v\<close> is \<open>dict_set\<close> and \<open>d.update(e)\<close> is
  \<open>dict_update\<close>.
\<close>

datatype py_val = IntV int | StrV string

type_synonym py_dict = "(string \<times> py_val) list"

definition dict_set :: "py_dict \<Rightarrow> string \<Rightarrow> py_val \<Rightarrow> py_dict" where
  "dict_set d k v =
     (if k \<in> set (map fst d) then map (\<lambda>kv. if fst kv = k then (k, v) else kv) d
      else d @ [(k, v)])"

definition dict_update :: "py_dict \<Rightarrow> py_dict \<Rightarrow> py_dict" where
  "dict_update d e = foldl (\<lambda>acc kv. dict_set acc (fst kv) (snd kv)) d e"

text \<open>\<open>d.get(k, default)\<close> where the entry, when present, is an integer.\<close>

definition get_int :: "py_dict \<Rightarrow> string \<Rightarrow> int \<Rightarrow> int" where
  "get_int d k dflt =
     (case map_of d k of Some (IntV n) \<Rightarrow> n | Some (StrV s) \<Rightarrow> dflt | None \<Rightarrow> dflt)"

text \<open>\<open>d.get(k, default)\<close>, whatever the entry is.\<close>

definition py_get :: "py_dict \<Rightarrow> string \<Rightarrow> py_val \<Rightarrow> py_val" where
  "py_get d k dflt = (case map_of d k of Some v \<Rightarrow> v | None \<Rightarrow> dflt)"

text \<open>
  \<open>s.count(sub)\<close>: the number of non-overlapping occurrences of \<open>sub\<close> in \<open>s\<close>, found
  from left to right.
\<close>

function count_sub :: "string \<Rightarrow> string \<Rightarrow> nat" where
  "count_sub sub s =
     (if sub = [] then Suc (length s)
      else if s = [] then 0
      else if take (length sub) s = sub then Suc (count_sub sub (drop (length sub) s))
      else count_sub sub (tl s))"
  by pat_completeness auto
termination
  by (relation "measure (\<lambda>(sub, s). length s)") auto

declare count_sub.simps [simp del]

text \<open>\<open>s.endswith(t)\<close>.\<close>

definition endswith :: "string \<Rightarrow> string \<Rightarrow> bool" where
  "endswith s t = (drop (length s - length t) s = t \<and> length t \<le> length s)"

subsection \<open>The float product \<open>n * 0.9\<close>\<close>

text \<open>
  For an integer \<open>n\<close>, Python computes \<open>n * 0.9\<close> in binary floating point with 53
  significant bits: \<open>n\<close> is converted to the nearest float, ties to the even significand,
  with \<open>OverflowError\<close> from \<open>2 ^ 1024\<close> on; the literal \<open>0.9\<close> is the float
  \<open>8106479329266893 / 2 ^ 53\<close>; the exact product of the two is rounded the same way.
  \<open>bit_length\<close> is \<open>int.bit_length\<close>, \<open>div_half_even n d\<close> is \<open>n / d\<close> rounded to the
  nearest integer, ties to even, and \<open>round53 n\<close> is \<open>n\<close> rounded to 53 significant bits.
  Rounding to 53 significant bits commutes with a scaling by a power of two, so the product
  is \<open>round53 (round53 n * 8106479329266893) / 2 ^ 53\<close>; \<open>times_point_nine\<close> returns its
  numerator. A comparison of an integer with a float is exact in Python.
\<close>

fun bit_length :: "nat \<Rightarrow> nat" where
  "bit_length n = (if n = 0 then 0 else Suc (bit_length (n div 2)))"

declare bit_length.simps [simp del]

definition div_half_even :: "nat \<Rightarrow> nat \<Rightarrow> nat" where
  "div_half_even n d =
     (let q = n div d; r = n mod d
      in if 2 * r < d then q
         else if d < 2 * r then q + 1
         else if even q then q else q + 1)"

definition round53 :: "nat \<Rightarrow> nat" where
  "round53 n = (let sh = bit_length n - 53 in div_half_even n (2 ^ sh) * 2 ^ sh)"

definition times_point_nine :: "int \<Rightarrow> py_exc + nat" where
  "times_point_nine n =
     (let f = round53 (nat n)
      in if 1024 < bit_length f
         then Inl (Raised OtherException ''int too large to convert to float'')
         else Inr (round53 (f * 8106479329266893)))"

text \<open>\<open>current < n * 0.9\<close> for an integer \<open>current\<close> and a positive integer \<open>n\<close>.\<close>

definition less_than_nine_tenths :: "int \<Rightarrow> int \<Rightarrow> py_exc + bool" where
  "less_than_nine_tenths current n =
     (case times_point_nine n of
        Inl e \<Rightarrow> Inl e
      | Inr numerator \<Rightarrow> Inr (current * 2 ^ 53 < int numerator))"

subsection \<open>pathlib\<close>

text \<open>
  A path is its string. \<open>Path.name\<close> is the final component; \<open>Path.suffix\<close> is the part
  of the name from its last dot on, and is empty when the name has no dot, starts with its
  only dot or ends with a dot; \<open>Path.stem\<close> is the name without that suffix. The suffix is
  one extension only: the suffix of \<open>backup.tar.gz\<close> is \<open>.gz\<close>.
\<close>

type_synonym path = string

definition path_name :: "path \<Rightarrow> string" where
  "path_name p = rev (takeWhile (\<lambda>c. c \<noteq> CHR ''/'') (rev p))"

text \<open>\<open>s.rfind(c)\<close>, with \<open>None\<close> for Python's \<open>-1\<close>.\<close>

definition rfind :: "char \<Rightarrow> string \<Rightarrow> nat option" where
  "rfind c s = (if c \<in> set s
                then Some (length s - Suc (length (takeWhile (\<lambda>x. x \<noteq> c) (rev s))))
                else None)"

definition path_suffix :: "path \<Rightarrow> string" where
  "path_suffix p =
     (let nm = path_name p in
      case rfind (CHR ''.'') nm of
        None \<Rightarrow> []
      | Some i \<Rightarrow> if 0 < i \<and> Suc i < length nm then drop i nm else [])"

definition path_stem :: "path \<Rightarrow> string" where
  "path_stem p =
     (let nm = path_name p in
      case rfind (CHR ''.'') nm of
        None \<Rightarrow> nm
      | Some i \<Rightarrow> if 0 < i \<and> Suc i < length nm then take i nm else nm)"

text \<open>
  \<open>Path.with_suffix(suffix)\<close> replaces the suffix of the name, or appends when the name
  has none; it raises \<open>ValueError\<close> on an ill-formed suffix or an empty name.
\<close>

definition with_suffix :: "path \<Rightarrow> string \<Rightarrow> py_exc + path" where
  "with_suffix p sfx =
     (if CHR ''/'' \<in> set sfx then Inl (Raised ValueError ''Invalid suffix'')
      else if (sfx \<noteq> [] \<and> take 1 sfx \<noteq> ''.'') \<or> sfx = ''.''
        then Inl (Raised ValueError ''Invalid suffix'')
      else if path_name p = [] then Inl (Raised ValueError ''empty name'')
      else (let old_suffix = path_suffix p in
            if old_suffix = [] then Inr (p @ sfx)
            else Inr (take (length p - length old_suffix) p @ sfx)))"

section \<open>Data model (\<open>core/models.py\<close>)\<close>

datatype BackupType = FULL | INCREMENTAL | DIFFERENTIAL

datatype CompressionType = NONE | GZIP | BZIP2 | LZ4

datatype EncryptionType = ENC_NONE | AES256

datatype BackupStatus = PENDING | RUNNING | COMPLETED | FAILED | CANCELLED

text \<open>The \<open>.value\<close> of the enumerations that the core prints.\<close>

fun BackupType_value :: "BackupType \<Rightarrow> string" where
  "BackupType_value FULL = ''full''"
| "BackupType_value INCREMENTAL = ''incremental''"
| "BackupType_value DIFFERENTIAL = ''differential''"

fun CompressionType_value :: "CompressionType \<Rightarrow> string" where
  "CompressionType_value NONE = ''none''"
| "CompressionType_value GZIP = ''gzip''"
| "CompressionType_value BZIP2 = ''bzip2''"
| "CompressionType_value LZ4 = ''lz4''"

fun EncryptionType_value :: "EncryptionType \<Rightarrow> string" where
  "EncryptionType_value ENC_NONE = ''none''"
| "EncryptionType_value AES256 = ''aes256''"

record DatabaseConfig =
  host :: string
  port :: int
  database :: string
  username :: string
  password :: string
  ssl_mode :: string
  connection_timeout :: int

record BackupConfig =
  backup_type :: BackupType
  compression :: CompressionType
  encryption :: EncryptionType
  encryption_key :: "string option"
  parallel_jobs :: int
  exclude_schemas :: "string list"
  include_schemas :: "string list"
  exclude_tables :: "string list"
  include_tables :: "string list"
  verbose :: bool
  clean_before_restore :: bool
  no_owner :: bool
  no_privileges :: bool

text \<open>Times are naive local datetimes, counted in microseconds.\<close>

type_synonym datetime = int

record BackupJob =
  id' :: string
  name :: string
  source_config :: DatabaseConfig
  backup_config :: BackupConfig
  backup_dir :: path
  schedule :: "string option"
  retention_days :: int
  enabled :: bool

text \<open>The values of the metadata dictionary of a result.\<close>

datatype meta_val = MetaDict py_dict | MetaConfig BackupConfig | MetaStr string

record BackupResult =
  job_id :: string
  status :: BackupStatus
  backup_file :: "path option"
  start_time :: datetime
  end_time :: "datetime option"
  size_bytes :: int
  size_compressed :: int
  tables_count :: int
  error_message :: "string option"
  checksum :: "string option"
  metadata :: "(string \<times> meta_val) list"

record RestoreResult =
  backup_file_r :: path
  target_config :: DatabaseConfig
  status_r :: BackupStatus
  start_time_r :: datetime
  end_time_r :: "datetime option"
  tables_restored :: int
  error_message_r :: "string option"
  verification_passed :: bool


section \<open>The backup executor (\<open>core/backup.py\<close>)\<close>

subsection \<open>State, effects and external processes\<close>

text \<open>
  What the core does to the outside is recorded as a list of events, in order: a
  subprocess started with its argument vector and environment, a call of a progress
  callback \<open>callback(percent, message)\<close>, a tar archive written from a directory, a
  temporary directory removed, a file unlinked, a warning logged.
\<close>

datatype event =
  Exec "string list" "(string \<times> string) list"
  | Progress nat int string
  | Archive path string path
  | Rmtree path
  | Unlink path
  | Warning string

text \<open>
  The state of a \<open>BackupManager\<close>: its two dictionaries, the result objects they refer
  to and the events so far. Result objects are mutable and shared between the registry and
  the running operation, so they live in a store; a reference is an index into it.
  Callables are identified by a reference too.
\<close>

record backup_state =
  heap :: "BackupResult list"
  active_backups :: "string \<rightharpoonup> nat"
  progress_callbacks :: "string \<rightharpoonup> nat"
  events :: "event list"

text \<open>
  One run of an external process as its monitor sees it: \<open>returncode_at k\<close> is
  \<open>process.returncode\<close> at the \<open>k\<close>-th test of the loop condition, \<open>elapsed_at k\<close> is
  \<open>int(time.time() - start_time)\<close> in the \<open>k\<close>-th iteration. The monitor suspends in
  \<open>await asyncio.sleep(1)\<close>, where other tasks run: \<open>cancel_at k = Some t\<close> says that
  during the \<open>k\<close>-th sleep another task cancels the operation, at time \<open>t\<close>.
\<close>

record proc_run =
  returncode_at :: "nat \<Rightarrow> int option"
  elapsed_at :: "nat \<Rightarrow> int"
  cancel_at :: "nat \<Rightarrow> datetime option"
  stderr_text :: string

subsection \<open>\<open>BackupManager.cancel_backup\<close>\<close>

definition cancel_backup :: "backup_state \<Rightarrow> string \<Rightarrow> datetime \<Rightarrow> backup_state \<times> bool" where
  "cancel_backup s jid now =
     (case active_backups s jid of
        Some r \<Rightarrow>
          (s\<lparr>heap := (heap s)[r := (heap s ! r)\<lparr>status := CANCELLED, end_time := Some now\<rparr>],
             active_backups := (active_backups s)(jid := None),
             progress_callbacks := (progress_callbacks s)(jid := None)\<rparr>,
           True)
      | None \<Rightarrow> (s, False))"

subsection \<open>\<open>BackupManager._monitor_backup_process\<close>\<close>

text \<open>
  One iteration of the loop: the sleep, during which the operation may be cancelled, and
  the time-based estimate \<open>min(95, elapsed * 100 // 300)\<close>, reported when a callback is
  registered for the job.
\<close>

definition monitor_backup_poll :: "proc_run \<Rightarrow> string \<Rightarrow> string \<Rightarrow> nat \<Rightarrow> backup_state \<Rightarrow> backup_state" where
  "monitor_backup_poll p jid message k s =
     (let s1 = (case cancel_at p k of
                  None \<Rightarrow> s
                | Some now \<Rightarrow> fst (cancel_backup s jid now));
          elapsed = elapsed_at p k
      in case progress_callbacks s1 jid of
           None \<Rightarrow> s1
         | Some cb \<Rightarrow>
             s1\<lparr>events := events s1 @
                [Progress cb (min 95 ((elapsed * 100) div 300))
                   (message @ '' ('' @ str_int elapsed @ ''s)'')]\<rparr>)"

text \<open>The loop runs as long as the process has no return code; it may run forever.\<close>

partial_function (option) monitor_backup_loop ::
  "proc_run \<Rightarrow> string \<Rightarrow> string \<Rightarrow> nat \<Rightarrow> backup_state \<Rightarrow> (backup_state \<times> int) option" where
  "monitor_backup_loop p jid message k s =
     (case returncode_at p k of
        Some rc \<Rightarrow> Some (s, rc)
      | None \<Rightarrow> monitor_backup_loop p jid message (Suc k) (monitor_backup_poll p jid message k s))"

declare monitor_backup_loop.simps [code]

text \<open>After the loop, the final update: \<open>callback(100, "... completed")\<close>.\<close>

definition monitor_backup_process ::
  "proc_run \<Rightarrow> string \<Rightarrow> string \<Rightarrow> backup_state \<Rightarrow> (backup_state \<times> int) option" where
  "monitor_backup_process p jid message s =
     (case monitor_backup_loop p jid message 0 s of
        None \<Rightarrow> None
      | Some (s1, rc) \<Rightarrow>
          Some (case progress_callbacks s1 jid of
                  None \<Rightarrow> s1
                | Some cb \<Rightarrow> s1\<lparr>events := events s1 @ [Progress cb 100 (message @ '' completed'')]\<rparr>,
                rc))"

subsection \<open>The two strategies of a full backup\<close>

text \<open>
  The environment of one execution of \<open>create_backup\<close>: the clock, the database probe, the
  file system and the processes that \<open>asyncio.create_subprocess_exec\<close> starts. Every
  external call either returns or raises.
\<close>

record backup_env =
  clock_start :: datetime
  clock_end :: datetime
  timestamp :: string
  get_database_info :: "py_exc + py_dict"
  mkdir :: "py_exc option"
  mkdtemp :: "py_exc + path"
  create_subprocess_exec :: "string list \<Rightarrow> py_exc + proc_run"
  tar_add :: "py_exc option"
  clock_failed :: datetime
  sha256_hexdigest :: "py_exc + string"
  stat_st_size :: "py_exc + int"

text \<open>The flags both strategies append, in the order of the source.\<close>

definition structure_flags :: "BackupConfig \<Rightarrow> string list" where
  "structure_flags config =
     (if clean_before_restore config then [''--clean''] else [])
     @ (if no_owner config then [''--no-owner''] else [])
     @ (if no_privileges config then [''--no-privileges''] else [])"

definition filter_flags :: "BackupConfig \<Rightarrow> string list" where
  "filter_flags config =
     concat (map (\<lambda>x. [''--exclude-schema'', x]) (exclude_schemas config))
     @ concat (map (\<lambda>x. [''--schema'', x]) (include_schemas config))
     @ concat (map (\<lambda>x. [''--exclude-table'', x]) (exclude_tables config))
     @ concat (map (\<lambda>x. [''--table'', x]) (include_tables config))"

definition connection_flags :: "DatabaseConfig \<Rightarrow> string list" where
  "connection_flags db_config =
     [''-h'' @ host db_config, ''-p'' @ str_int (port db_config),
      ''-U'' @ username db_config, ''-d'' @ database db_config]"

text \<open>\<open>_create_custom_backup\<close>: one \<open>pg_dump --format=custom\<close> writing the final file.\<close>

definition create_custom_backup ::
  "backup_env \<Rightarrow> BackupJob \<Rightarrow> path \<Rightarrow> backup_state \<Rightarrow> (backup_state \<times> (py_exc + path)) option" where
  "create_custom_backup env job backup_file' s =
     (let config = backup_config job;
          db_config = source_config job;
          cmd = [''pg_dump''] @ connection_flags db_config @ [''--verbose'', ''--format=custom'']
                @ structure_flags config @ filter_flags config
      in case (if compression config = GZIP then with_suffix backup_file' ''.dump.gz''
               else if compression config = BZIP2 then with_suffix backup_file' ''.dump.bz2''
               else with_suffix backup_file' ''.dump'') of
           Inl e \<Rightarrow> Some (s, Inl e)
         | Inr final_file \<Rightarrow>
             (let cmd1 = cmd @ [''--file'', final_file];
                  env_vars = [(''PGPASSWORD'', password db_config)]
              in case create_subprocess_exec env cmd1 of
                   Inl e \<Rightarrow> Some (s, Inl e)
                 | Inr process \<Rightarrow>
                     (case monitor_backup_process process (id' job) ''Creating custom backup''
                             (s\<lparr>events := events s @ [Exec cmd1 env_vars]\<rparr>) of
                        None \<Rightarrow> None
                      | Some (s1, rc) \<Rightarrow>
                          if rc \<noteq> 0
                          then Some (s1, Inl (Raised RuntimeError
                                               (''pg_dump failed: '' @ stderr_text process)))
                          else Some (s1, Inr final_file))))"

text \<open>
  \<open>_create_parallel_backup\<close>: \<open>pg_dump --format=directory --jobs=N\<close> into a temporary
  directory, which is then written to a tar archive. Leaving the \<open>with\<close> block removes the
  temporary directory on every path.
\<close>

definition archive_directory ::
  "backup_env \<Rightarrow> path \<Rightarrow> string \<Rightarrow> path \<Rightarrow> backup_state \<Rightarrow> backup_state \<times> (py_exc + path)" where
  "archive_directory env final_file mode temp_backup_dir s =
     (let s1 = s\<lparr>events := events s @ [Archive final_file mode temp_backup_dir]\<rparr>
      in case tar_add env of
           Some e \<Rightarrow> (s1, Inl e)
         | None \<Rightarrow> (s1, Inr final_file))"

definition create_parallel_backup ::
  "backup_env \<Rightarrow> BackupJob \<Rightarrow> path \<Rightarrow> backup_state \<Rightarrow> (backup_state \<times> (py_exc + path)) option" where
  "create_parallel_backup env job backup_file' s =
     (let config = backup_config job;
          db_config = source_config job
      in case mkdtemp env of
           Inl e \<Rightarrow> Some (s, Inl e)
         | Inr temp_dir \<Rightarrow>
             (let temp_backup_dir = temp_dir @ ''/'' @ path_stem backup_file' @ ''_dir'';
                  cmd = [''pg_dump''] @ connection_flags db_config
                        @ [''--verbose'', ''--format=directory'',
                           ''--jobs='' @ str_int (parallel_jobs config),
                           ''--file'', temp_backup_dir]
                        @ structure_flags config @ filter_flags config;
                  env_vars = [(''PGPASSWORD'', password db_config)];
                  cleanup = (\<lambda>(s', out). (s'\<lparr>events := events s' @ [Rmtree temp_dir]\<rparr>, out))
              in case create_subprocess_exec env cmd of
                   Inl e \<Rightarrow> Some (cleanup (s, Inl e))
                 | Inr process \<Rightarrow>
                     (case monitor_backup_process process (id' job) ''Creating parallel backup''
                             (s\<lparr>events := events s @ [Exec cmd env_vars]\<rparr>) of
                        None \<Rightarrow> None
                      | Some (s1, rc) \<Rightarrow>
                          if rc \<noteq> 0
                          then Some (cleanup (s1, Inl (Raised RuntimeError
                                                 (''pg_dump failed: '' @ stderr_text process))))
                          else if compression config = GZIP
                          then (case with_suffix backup_file' ''.tar.gz'' of
                                  Inl e \<Rightarrow> Some (cleanup (s1, Inl e))
                                | Inr final_file \<Rightarrow>
                                    Some (cleanup (archive_directory env final_file ''w:gz''
                                                     temp_backup_dir s1)))
                          else if compression config = BZIP2
                          then (case with_suffix backup_file' ''.tar.bz2'' of
                                  Inl e \<Rightarrow> Some (cleanup (s1, Inl e))
                                | Inr final_file \<Rightarrow>
                                    Some (cleanup (archive_directory env final_file ''w:bz2''
                                                     temp_backup_dir s1)))
                          else (case with_suffix backup_file' ''.tar'' of
                                  Inl e \<Rightarrow> Some (cleanup (s1, Inl e))
                                | Inr final_file \<Rightarrow>
                                    Some (cleanup (archive_directory env final_file ''w''
                                                     temp_backup_dir s1))))))"

text \<open>\<open>_create_full_backup\<close>: the choice between the two.\<close>

definition create_full_backup ::
  "backup_env \<Rightarrow> BackupJob \<Rightarrow> path \<Rightarrow> backup_state \<Rightarrow> (backup_state \<times> (py_exc + path)) option" where
  "create_full_backup env job backup_file' s =
     (let config = backup_config job in
      if parallel_jobs config > 1 \<and> compression config \<noteq> NONE
      then create_parallel_backup env job backup_file' s
      else create_custom_backup env job backup_file' s)"


subsection \<open>\<open>BackupManager.create_backup\<close>\<close>

text \<open>\<open>_get_backup_file_path\<close>: the job's directory joined with \<open>{name}_{timestamp}\<close>.\<close>

definition get_backup_file_path :: "backup_env \<Rightarrow> BackupJob \<Rightarrow> path" where
  "get_backup_file_path env job = backup_dir job @ ''/'' @ name job @ ''_'' @ timestamp env"

text \<open>
  The first statements of \<open>create_backup\<close>: a new result object with status \<open>RUNNING\<close> is
  stored under the job's id, and the callback when one is given.
\<close>

definition register_backup :: "backup_env \<Rightarrow> backup_state \<Rightarrow> BackupJob \<Rightarrow> nat option \<Rightarrow> backup_state" where
  "register_backup env s job progress_callback =
     (let result = \<lparr>job_id = id' job, status = RUNNING, backup_file = None,
                     start_time = clock_start env, end_time = None, size_bytes = 0,
                     size_compressed = 0, tables_count = 0, error_message = None,
                     checksum = None, metadata = []\<rparr>;
          s1 = s\<lparr>heap := heap s @ [result],
                 active_backups := (active_backups s)(id' job \<mapsto> length (heap s))\<rparr>
      in case progress_callback of
           None \<Rightarrow> s1
         | Some cb \<Rightarrow> s1\<lparr>progress_callbacks := (progress_callbacks s1)(id' job \<mapsto> cb)\<rparr>)"

text \<open>
  The body of the \<open>try\<close> block, on the result object at reference \<open>r\<close>. It returns the
  state it leaves and either nothing or the exception it raises.
\<close>

definition create_backup_try ::
  "backup_env \<Rightarrow> BackupJob \<Rightarrow> nat \<Rightarrow> backup_state \<Rightarrow> (backup_state \<times> (py_exc + unit)) option" where
  "create_backup_try env job r s =
     (case get_database_info env of
        Inl e \<Rightarrow> Some (s, Inl e)
      | Inr db_info \<Rightarrow>
          (case mkdir env of
             Some e \<Rightarrow> Some (s, Inl e)
           | None \<Rightarrow>
               (let s1 = s\<lparr>heap := (heap s)[r := (heap s ! r)
                              \<lparr>tables_count := get_int db_info ''table_count'' 0\<rparr>]\<rparr>
                in if backup_type (backup_config job) = FULL
                   then (case create_full_backup env job (get_backup_file_path env job) s1 of
                           None \<Rightarrow> None
                         | Some (s2, out) \<Rightarrow>
                             (case out of
                                Inl e \<Rightarrow> Some (s2, Inl e)
                              | Inr final_file \<Rightarrow>
                                  (case sha256_hexdigest env of
                                     Inl e \<Rightarrow> Some (s2, Inl e)
                                   | Inr digest \<Rightarrow>
                                       (let s3 = s2\<lparr>heap := (heap s2)[r := (heap s2 ! r)
                                                     \<lparr>status := COMPLETED,
                                                      backup_file := Some final_file,
                                                      end_time := Some (clock_end env)\<rparr>]\<rparr>
                                        in case stat_st_size env of
                                             Inl e \<Rightarrow> Some (s3, Inl e)
                                           | Inr st_size \<Rightarrow>
                                               Some (s3\<lparr>heap := (heap s3)[r := (heap s3 ! r)
                                                        \<lparr>size_bytes := st_size,
                                                         checksum := Some digest,
                                                         metadata :=
                                                           [(''database_info'', MetaDict db_info),
                                                            (''backup_config'', MetaConfig (backup_config job)),
                                                            (''compression'', MetaStr (CompressionType_value (compression (backup_config job)))),
                                                            (''encryption'', MetaStr (EncryptionType_value (encryption (backup_config job))))]\<rparr>]\<rparr>,
                                                     Inr ())))))
                   else Some (s1, Inl (Raised ValueError
                                (''Backup type '' @ BackupType_value (backup_type (backup_config job))
                                 @ '' not yet implemented''))))))"

text \<open>
  \<open>create_backup\<close>: registration, the \<open>try\<close> block, the handler \<open>except Exception\<close>, the
  \<open>finally\<close> block and the return. The outcome is \<open>None\<close> when the call never returns,
  \<open>Inl e\<close> when the exception \<open>e\<close> reaches the caller and \<open>Inr result\<close> when the result
  object is returned.
\<close>

definition create_backup ::
  "backup_env \<Rightarrow> backup_state \<Rightarrow> BackupJob \<Rightarrow> nat option \<Rightarrow> (backup_state \<times> (py_exc + BackupResult)) option" where
  "create_backup env s job progress_callback =
     (let r = length (heap s) in
      case create_backup_try env job r (register_backup env s job progress_callback) of
        None \<Rightarrow> None
      | Some (s1, out) \<Rightarrow>
          (let s2 = (case out of
                       Inr u \<Rightarrow> s1
                     | Inl e \<Rightarrow>
                         if is_Exception e
                         then s1\<lparr>heap := (heap s1)[r := (heap s1 ! r)
                                   \<lparr>status := FAILED,
                                    error_message := Some (str_exc e),
                                    end_time := Some (clock_failed env)\<rparr>]\<rparr>
                         else s1);
               s3 = s2\<lparr>active_backups := (active_backups s2)(id' job := None),
                      progress_callbacks := (progress_callbacks s2)(id' job := None)\<rparr>
           in Some (s3, case out of
                          Inr u \<Rightarrow> Inr (heap s3 ! r)
                        | Inl e \<Rightarrow> if is_Exception e then Inr (heap s3 ! r) else Inl e)))"

section \<open>The restore executor (\<open>core/restore.py\<close>)\<close>

text \<open>The state of a \<open>RestoreManager\<close>, as for the backup manager.\<close>

record restore_state =
  heap_r :: "RestoreResult list"
  active_restores :: "string \<rightharpoonup> nat"
  progress_callbacks_r :: "string \<rightharpoonup> nat"
  events_r :: "event list"

subsection \<open>\<open>RestoreManager.cancel_restore\<close>\<close>

definition cancel_restore :: "restore_state \<Rightarrow> string \<Rightarrow> datetime \<Rightarrow> restore_state \<times> bool" where
  "cancel_restore s restore_id now =
     (case active_restores s restore_id of
        Some r \<Rightarrow>
          (s\<lparr>heap_r := (heap_r s)[r := (heap_r s ! r)\<lparr>status_r := CANCELLED, end_time_r := Some now\<rparr>],
             active_restores := (active_restores s)(restore_id := None),
             progress_callbacks_r := (progress_callbacks_r s)(restore_id := None)\<rparr>,
           True)
      | None \<Rightarrow> (s, False))"

subsection \<open>\<open>RestoreManager._monitor_restore_process\<close>\<close>

definition monitor_restore_poll :: "proc_run \<Rightarrow> string \<Rightarrow> string \<Rightarrow> nat \<Rightarrow> restore_state \<Rightarrow> restore_state" where
  "monitor_restore_poll p restore_id message k s =
     (let s1 = (case cancel_at p k of
                  None \<Rightarrow> s
                | Some now \<Rightarrow> fst (cancel_restore s restore_id now));
          elapsed = elapsed_at p k
      in case progress_callbacks_r s1 restore_id of
           None \<Rightarrow> s1
         | Some cb \<Rightarrow>
             s1\<lparr>events_r := events_r s1 @
                [Progress cb (min 95 ((elapsed * 100) div 600))
                   (message @ '' ('' @ str_int elapsed @ ''s)'')]\<rparr>)"

partial_function (option) monitor_restore_loop ::
  "proc_run \<Rightarrow> string \<Rightarrow> string \<Rightarrow> nat \<Rightarrow> restore_state \<Rightarrow> (restore_state \<times> int) option" where
  "monitor_restore_loop p restore_id message k s =
     (case returncode_at p k of
        Some rc \<Rightarrow> Some (s, rc)
      | None \<Rightarrow> monitor_restore_loop p restore_id message (Suc k)
                  (monitor_restore_poll p restore_id message k s))"

declare monitor_restore_loop.simps [code]

definition monitor_restore_process ::
  "proc_run \<Rightarrow> string \<Rightarrow> string \<Rightarrow> restore_state \<Rightarrow> (restore_state \<times> int) option" where
  "monitor_restore_process p restore_id message s =
     (case monitor_restore_loop p restore_id message 0 s of
        None \<Rightarrow> None
      | Some (s1, rc) \<Rightarrow>
          Some (case progress_callbacks_r s1 restore_id of
                  None \<Rightarrow> s1
                | Some cb \<Rightarrow> s1\<lparr>events_r := events_r s1 @ [Progress cb 100 (message @ '' completed'')]\<rparr>,
                rc))"

subsection \<open>Inspecting an artifact\<close>

text \<open>
  What an artifact is on disk, as far as the executor looks at it: whether it exists, its
  \<open>stat\<close>, what \<open>pg_restore --list\<close> answers (return code and output), the members of
  the tar archive, and the text read through \<open>gzip.open\<close> and through \<open>open\<close>.
\<close>

record tar_member =
  member_name :: string
  member_size :: int
  member_read :: "py_exc + string"

record artifact_env =
  exists_file :: bool
  stat_file :: "py_exc + (int \<times> string \<times> string)"
  pg_restore_list :: "py_exc + (int \<times> string)"
  tar_getmembers :: "py_exc + tar_member list"
  gzip_read :: "py_exc + string"
  open_read :: "py_exc + string"

text \<open>
  \<open>_verify_backup_file\<close>. The tar and SQL checks sit in a bare \<open>except\<close>, which catches
  everything; the whole body sits in \<open>except Exception\<close>.
\<close>

definition verify_backup_file :: "artifact_env \<Rightarrow> path \<Rightarrow> py_exc + bool" where
  "verify_backup_file env backup_file' =
     (let body =
        (if \<not> exists_file env then Inr False
         else if path_suffix backup_file' \<in> set [''.dump'', ''.dump.gz'', ''.dump.bz2'']
         then (case pg_restore_list env of
                 Inl e \<Rightarrow> Inl e
               | Inr listing \<Rightarrow> Inr (fst listing = 0))
         else if path_suffix backup_file' \<in> set [''.tar'', ''.tar.gz'', ''.tar.bz2'']
         then (case tar_getmembers env of Inl e \<Rightarrow> Inr False | Inr members \<Rightarrow> Inr True)
         else if path_suffix backup_file' \<in> set [''.sql'', ''.sql.gz'']
         then (if path_suffix backup_file' = ''.sql.gz''
               then (case gzip_read env of Inl e \<Rightarrow> Inr False | Inr content \<Rightarrow> Inr True)
               else (case open_read env of Inl e \<Rightarrow> Inr False | Inr content \<Rightarrow> Inr True))
         else Inr False)
      in case body of
           Inl e \<Rightarrow> if is_Exception e then Inr False else Inl e
         | Inr b \<Rightarrow> Inr b)"

text \<open>\<open>_get_custom_backup_info\<close>, \<open>_get_tar_backup_info\<close> and \<open>_get_sql_backup_info\<close>.\<close>

definition get_custom_backup_info :: "artifact_env \<Rightarrow> py_dict" where
  "get_custom_backup_info env =
     (case pg_restore_list env of
        Inl e \<Rightarrow> [(''format'', StrV ''custom'')]
      | Inr listing \<Rightarrow>
          if fst listing = 0
          then [(''format'', StrV ''custom''),
                (''tables_count'', IntV (int (count_sub ''TABLE'' (snd listing)))),
                (''functions_count'', IntV (int (count_sub ''FUNCTION'' (snd listing)))),
                (''triggers_count'', IntV (int (count_sub ''TRIGGER'' (snd listing))))]
          else [(''format'', StrV ''custom'')])"

text \<open>The loop over the members that looks for \<open>toc.dat\<close>.\<close>

fun toc_table_count :: "tar_member list \<Rightarrow> int" where
  "toc_table_count [] = 0"
| "toc_table_count (m # ms) =
     (if endswith (member_name m) ''toc.dat''
      then (case member_read m of
              Inr content \<Rightarrow> int (count_sub ''TABLE'' content)
            | Inl e \<Rightarrow> toc_table_count ms)
      else toc_table_count ms)"

definition get_tar_backup_info :: "artifact_env \<Rightarrow> py_dict" where
  "get_tar_backup_info env =
     (case tar_getmembers env of
        Inl e \<Rightarrow> [(''format'', StrV ''directory'')]
      | Inr members \<Rightarrow>
          [(''format'', StrV ''directory''),
           (''files_count'', IntV (int (length members))),
           (''tables_count'', IntV (toc_table_count members)),
           (''uncompressed_size'', IntV (sum_list (map member_size members)))])"

definition get_sql_backup_info :: "artifact_env \<Rightarrow> path \<Rightarrow> py_dict" where
  "get_sql_backup_info env backup_file' =
     (case (if path_suffix backup_file' = ''.sql.gz'' then gzip_read env else open_read env) of
        Inl e \<Rightarrow> [(''format'', StrV ''sql'')]
      | Inr text \<Rightarrow>
          (let content = take 10240 text
           in [(''format'', StrV ''sql''),
               (''tables_count'', IntV (int (count_sub ''CREATE TABLE'' content))),
               (''indexes_count'', IntV (int (count_sub ''CREATE INDEX'' content))),
               (''triggers_count'', IntV (int (count_sub ''CREATE TRIGGER'' content)))]))"

text \<open>\<open>_get_backup_info\<close>: the entries of \<open>stat\<close>, updated with those of the format.\<close>

definition get_backup_info :: "artifact_env \<Rightarrow> path \<Rightarrow> py_exc + py_dict" where
  "get_backup_info env backup_file' =
     (case stat_file env of
        Inl e \<Rightarrow> if is_Exception e then Inr [(''format'', StrV ''unknown'')] else Inl e
      | Inr st \<Rightarrow>
          (let info = [(''file_path'', StrV backup_file'),
                       (''size_bytes'', IntV (fst st)),
                       (''created_time'', StrV (fst (snd st))),
                       (''modified_time'', StrV (snd (snd st)))]
           in if path_suffix backup_file' \<in> set [''.dump'', ''.dump.gz'', ''.dump.bz2'']
              then Inr (dict_update info (get_custom_backup_info env))
              else if path_suffix backup_file' \<in> set [''.tar'', ''.tar.gz'', ''.tar.bz2'']
              then Inr (dict_update info (get_tar_backup_info env))
              else if path_suffix backup_file' \<in> set [''.sql'', ''.sql.gz'']
              then Inr (dict_update info (get_sql_backup_info env backup_file'))
              else Inr info))"

subsection \<open>The three ways to restore\<close>

text \<open>
  The environment of one execution of \<open>restore_backup\<close>. The probes of the database
  manager return a truth value, \<open>tar_extractall\<close> gives the directories found below the
  temporary directory after extraction.
\<close>

record restore_env =
  artifact :: artifact_env
  time_time :: int
  clock_start_r :: datetime
  clock_end_r :: datetime
  clock_failed_r :: datetime
  database_exists :: "py_exc + bool"
  drop_database :: "py_exc + bool"
  create_database :: "py_exc + bool"
  subprocess_exec_r :: "string list \<Rightarrow> py_exc + proc_run"
  mkdtemp_r :: "py_exc + path"
  tar_extractall :: "py_exc + path list"
  open_rb :: "py_exc option"
  get_database_info_r :: "py_exc + py_dict"

text \<open>
  \<open>process.communicate()\<close> returns once the process has exited, with its return code. A
  process that has been waited for is seen exited by every later poll.
\<close>

partial_function (option) communicate :: "proc_run \<Rightarrow> nat \<Rightarrow> int option" where
  "communicate p k =
     (case returncode_at p k of
        Some rc \<Rightarrow> Some rc
      | None \<Rightarrow> communicate p (Suc k))"

declare communicate.simps [code]

definition exited :: "proc_run \<Rightarrow> int \<Rightarrow> proc_run" where
  "exited p rc = p\<lparr>returncode_at := (\<lambda>k. Some rc)\<rparr>"

definition restore_flags :: "DatabaseConfig \<Rightarrow> string list" where
  "restore_flags target = connection_flags target
     @ [''--verbose'', ''--clean'', ''--no-owner'', ''--no-privileges'']"

definition restore_custom_format ::
  "restore_env \<Rightarrow> path \<Rightarrow> DatabaseConfig \<Rightarrow> string \<Rightarrow> restore_state
     \<Rightarrow> (restore_state \<times> (py_exc + unit)) option" where
  "restore_custom_format env backup_file' target restore_id s =
     (let cmd = [''pg_restore''] @ restore_flags target @ [backup_file'];
          env_vars = [(''PGPASSWORD'', password target)]
      in case subprocess_exec_r env cmd of
           Inl e \<Rightarrow> Some (s, Inl e)
         | Inr process \<Rightarrow>
             (case monitor_restore_process process restore_id ''Restoring custom format backup''
                     (s\<lparr>events_r := events_r s @ [Exec cmd env_vars]\<rparr>) of
                None \<Rightarrow> None
              | Some (s1, rc) \<Rightarrow>
                  if rc \<noteq> 0
                  then Some (s1, Inl (Raised RuntimeError
                                       (''pg_restore failed: '' @ stderr_text process)))
                  else Some (s1, Inr ())))"

definition restore_directory_format ::
  "restore_env \<Rightarrow> path \<Rightarrow> DatabaseConfig \<Rightarrow> string \<Rightarrow> restore_state
     \<Rightarrow> (restore_state \<times> (py_exc + unit)) option" where
  "restore_directory_format env backup_file' target restore_id s =
     (case mkdtemp_r env of
        Inl e \<Rightarrow> Some (s, Inl e)
      | Inr temp_dir \<Rightarrow>
          (let cleanup = (\<lambda>(s', out). (s'\<lparr>events_r := events_r s' @ [Rmtree temp_dir]\<rparr>, out))
           in case tar_extractall env of
                Inl e \<Rightarrow> Some (cleanup (s, Inl e))
              | Inr extracted_dirs \<Rightarrow>
                  (case extracted_dirs of
                     [] \<Rightarrow> Some (cleanup (s, Inl (Raised RuntimeError
                                                 ''No backup directory found in archive'')))
                   | backup_dir' # others \<Rightarrow>
                       (let cmd = [''pg_restore''] @ restore_flags target
                                  @ [''--jobs=4'', backup_dir'];
                            env_vars = [(''PGPASSWORD'', password target)]
                        in case subprocess_exec_r env cmd of
                             Inl e \<Rightarrow> Some (cleanup (s, Inl e))
                           | Inr process \<Rightarrow>
                               (case monitor_restore_process process restore_id
                                       ''Restoring directory format backup''
                                       (s\<lparr>events_r := events_r s @ [Exec cmd env_vars]\<rparr>) of
                                  None \<Rightarrow> None
                                | Some (s1, rc) \<Rightarrow>
                                    if rc \<noteq> 0
                                    then Some (cleanup (s1, Inl (Raised RuntimeError
                                                 (''pg_restore failed: '' @ stderr_text process))))
                                    else Some (cleanup (s1, Inr ())))))))"

text \<open>
  \<open>_restore_sql_format\<close>: \<open>psql\<close> is fed and waited for with \<open>communicate\<close>, through
  \<open>gunzip -c\<close> when the suffix is \<open>.sql.gz\<close>, and is monitored only after that.
\<close>

definition feed_psql ::
  "restore_env \<Rightarrow> DatabaseConfig \<Rightarrow> string \<Rightarrow> restore_state
     \<Rightarrow> (restore_state \<times> (py_exc + unit)) option" where
  "feed_psql env target restore_id s =
     (let cmd = [''psql''] @ connection_flags target @ [''--verbose''];
          env_vars = [(''PGPASSWORD'', password target)]
      in case subprocess_exec_r env cmd of
           Inl e \<Rightarrow> Some (s, Inl e)
         | Inr psql_process \<Rightarrow>
             (case communicate psql_process 0 of
                None \<Rightarrow> None
              | Some rc0 \<Rightarrow>
                  (case monitor_restore_process (exited psql_process rc0) restore_id
                          ''Restoring SQL backup''
                          (s\<lparr>events_r := events_r s @ [Exec cmd env_vars]\<rparr>) of
                     None \<Rightarrow> None
                   | Some (s1, rc) \<Rightarrow>
                       if rc \<noteq> 0
                       then Some (s1, Inl (Raised RuntimeError
                                            (''psql failed: '' @ stderr_text psql_process)))
                       else Some (s1, Inr ()))))"

definition restore_sql_format ::
  "restore_env \<Rightarrow> path \<Rightarrow> DatabaseConfig \<Rightarrow> string \<Rightarrow> restore_state
     \<Rightarrow> (restore_state \<times> (py_exc + unit)) option" where
  "restore_sql_format env backup_file' target restore_id s =
     (if path_suffix backup_file' = ''.sql.gz''
      then (case subprocess_exec_r env [''gunzip'', ''-c'', backup_file'] of
              Inl e \<Rightarrow> Some (s, Inl e)
            | Inr process \<Rightarrow>
                (case communicate process 0 of
                   None \<Rightarrow> None
                 | Some rc \<Rightarrow>
                     (let s1 = s\<lparr>events_r := events_r s
                                   @ [Exec [''gunzip'', ''-c'', backup_file'] []]\<rparr>
                      in if rc \<noteq> 0
                         then Some (s1, Inl (Raised RuntimeError ''Failed to decompress SQL file''))
                         else feed_psql env target restore_id s1)))
      else (case open_rb env of
              Some e \<Rightarrow> Some (s, Inl e)
            | None \<Rightarrow> feed_psql env target restore_id s))"

subsection \<open>\<open>RestoreManager._verify_restoration\<close>\<close>

text \<open>
  The table count of the restored database is compared with the count recorded for the
  artifact, by \<open>current_tables < backup_tables * 0.9\<close>. A shortfall is logged as a warning,
  and nothing else. An entry that is not a number makes the comparison raise \<open>TypeError\<close>,
  and the handler of the function, \<open>except Exception\<close>, then answers \<open>False\<close>, as it does
  for every exception below \<open>Exception\<close>.
\<close>

definition verify_restoration ::
  "restore_env \<Rightarrow> py_dict \<Rightarrow> restore_state \<Rightarrow> restore_state \<times> (py_exc + bool)" where
  "verify_restoration env backup_info s =
     (case get_database_info_r env of
        Inl e \<Rightarrow> if is_Exception e then (s, Inr False) else (s, Inl e)
      | Inr db_info \<Rightarrow>
          if db_info = [] then (s, Inr False)
          else (case py_get backup_info ''tables_count'' (IntV 0) of
                  StrV t \<Rightarrow> (s, Inr False)
                | IntV backup_tables \<Rightarrow>
                    if backup_tables > 0
                    then (case py_get db_info ''table_count'' (IntV 0) of
                            StrV t \<Rightarrow> (s, Inr False)
                          | IntV current_tables \<Rightarrow>
                              (case less_than_nine_tenths current_tables backup_tables of
                                 Inl e \<Rightarrow> (s, Inr False)
                               | Inr short \<Rightarrow>
                                   if short
                                   then (s\<lparr>events_r := events_r s @
                                            [Warning (''Table count mismatch: expected ''
                                                      @ str_int backup_tables @ '', got ''
                                                      @ str_int current_tables)]\<rparr>,
                                         Inr True)
                                   else (s, Inr True)))
                    else (s, Inr True)))"

subsection \<open>\<open>RestoreManager.restore_backup\<close>\<close>

text \<open>\<open>str(d.get("format"))\<close>, as the message of the unsupported format prints it.\<close>

definition str_format :: "py_dict \<Rightarrow> string" where
  "str_format info =
     (case map_of info ''format'' of
        None \<Rightarrow> ''None''
      | Some (StrV f) \<Rightarrow> f
      | Some (IntV n) \<Rightarrow> str_int n)"

definition register_restore ::
  "restore_env \<Rightarrow> restore_state \<Rightarrow> path \<Rightarrow> DatabaseConfig \<Rightarrow> nat option \<Rightarrow> restore_state" where
  "register_restore env s backup_file' target progress_callback =
     (let result = \<lparr>backup_file_r = backup_file', target_config = target, status_r = RUNNING,
                     start_time_r = clock_start_r env, end_time_r = None, tables_restored = 0,
                     error_message_r = None, verification_passed = False\<rparr>;
          restore_id = ''restore_'' @ str_int (time_time env);
          s1 = s\<lparr>heap_r := heap_r s @ [result],
                 active_restores := (active_restores s)(restore_id \<mapsto> length (heap_r s))\<rparr>
      in case progress_callback of
           None \<Rightarrow> s1
         | Some cb \<Rightarrow> s1\<lparr>progress_callbacks_r := (progress_callbacks_r s1)(restore_id \<mapsto> cb)\<rparr>)"

text \<open>
  The \<open>try\<close> block: verification of the file, its information, the target database, the
  restore chosen by the \<open>format\<close> entry of the information (\<open>restore_by_format\<close>, the chain
  of \<open>if\<close> and \<open>elif\<close>), the verification of the result and the update of the result
  object at reference \<open>r\<close>.
\<close>

definition restore_by_format ::
  "restore_env \<Rightarrow> path \<Rightarrow> DatabaseConfig \<Rightarrow> string \<Rightarrow> py_dict \<Rightarrow> restore_state
     \<Rightarrow> (restore_state \<times> (py_exc + unit)) option" where
  "restore_by_format env backup_file' target restore_id backup_info s =
     (if map_of backup_info ''format'' = Some (StrV ''custom'')
      then restore_custom_format env backup_file' target restore_id s
      else if map_of backup_info ''format'' = Some (StrV ''directory'')
      then restore_directory_format env backup_file' target restore_id s
      else if map_of backup_info ''format'' = Some (StrV ''sql'')
      then restore_sql_format env backup_file' target restore_id s
      else Some (s, Inl (Raised RuntimeError
                          (''Unsupported backup format: '' @ str_format backup_info))))"

definition restore_dispatch ::
  "restore_env \<Rightarrow> path \<Rightarrow> DatabaseConfig \<Rightarrow> string \<Rightarrow> nat \<Rightarrow> py_dict \<Rightarrow> restore_state
     \<Rightarrow> (restore_state \<times> (py_exc + unit)) option" where
  "restore_dispatch env backup_file' target restore_id r backup_info s =
     (case restore_by_format env backup_file' target restore_id backup_info s of
        None \<Rightarrow> None
      | Some (s1, out) \<Rightarrow>
          (case out of
             Inl e \<Rightarrow> Some (s1, Inl e)
           | Inr u \<Rightarrow>
               (case verify_restoration env backup_info s1 of
                  (s2, Inl e) \<Rightarrow> Some (s2, Inl e)
                | (s2, Inr passed) \<Rightarrow>
                    Some (s2\<lparr>heap_r := (heap_r s2)[r := (heap_r s2 ! r)
                               \<lparr>status_r := COMPLETED,
                                end_time_r := Some (clock_end_r env),
                                verification_passed := passed,
                                tables_restored := get_int backup_info ''tables_count'' 0\<rparr>]\<rparr>,
                          Inr ()))))"

definition restore_backup_try ::
  "restore_env \<Rightarrow> path \<Rightarrow> DatabaseConfig \<Rightarrow> string \<Rightarrow> nat \<Rightarrow> restore_state
     \<Rightarrow> (restore_state \<times> (py_exc + unit)) option" where
  "restore_backup_try env backup_file' target restore_id r s =
     (case verify_backup_file (artifact env) backup_file' of
        Inl e \<Rightarrow> Some (s, Inl e)
      | Inr verified \<Rightarrow>
          if \<not> verified
          then Some (s, Inl (Raised RuntimeError
                              (''Backup file verification failed: '' @ backup_file')))
          else (case get_backup_info (artifact env) backup_file' of
                  Inl e \<Rightarrow> Some (s, Inl e)
                | Inr backup_info \<Rightarrow>
                    (case database_exists env of
                       Inl e \<Rightarrow> Some (s, Inl e)
                     | Inr present \<Rightarrow>
                         (case (if present then drop_database env else Inr True) of
                            Inl e \<Rightarrow> Some (s, Inl e)
                          | Inr handled \<Rightarrow>
                              if \<not> handled
                              then Some (s, Inl (Raised RuntimeError ''Restore cancelled by user''))
                              else (case create_database env of
                                      Inl e \<Rightarrow> Some (s, Inl e)
                                    | Inr created \<Rightarrow>
                                        if \<not> created
                                        then Some (s, Inl (Raised RuntimeError
                                                      (''Failed to create database: ''
                                                       @ database target)))
                                        else restore_dispatch env backup_file' target
                                               restore_id r backup_info s)))))"

definition restore_backup ::
  "restore_env \<Rightarrow> restore_state \<Rightarrow> path \<Rightarrow> DatabaseConfig \<Rightarrow> nat option
     \<Rightarrow> (restore_state \<times> (py_exc + RestoreResult)) option" where
  "restore_backup env s backup_file' target progress_callback =
     (let r = length (heap_r s);
          restore_id = ''restore_'' @ str_int (time_time env)
      in case restore_backup_try env backup_file' target restore_id r
                (register_restore env s backup_file' target progress_callback) of
           None \<Rightarrow> None
         | Some (s1, out) \<Rightarrow>
             (let s2 = (case out of
                          Inr u \<Rightarrow> s1
                        | Inl e \<Rightarrow>
                            if is_Exception e
                            then s1\<lparr>heap_r := (heap_r s1)[r := (heap_r s1 ! r)
                                      \<lparr>status_r := FAILED,
                                       error_message_r := Some (str_exc e),
                                       end_time_r := Some (clock_failed_r env)\<rparr>]\<rparr>
                            else s1);
                  s3 = s2\<lparr>active_restores := (active_restores s2)(restore_id := None),
                         progress_callbacks_r := (progress_callbacks_r s2)(restore_id := None)\<rparr>
              in Some (s3, case out of
                             Inr u \<Rightarrow> Inr (heap_r s3 ! r)
                           | Inl e \<Rightarrow> if is_Exception e then Inr (heap_r s3 ! r) else Inl e)))"

section \<open>Validation of a backup configuration (\<open>utils/validation.py\<close>)\<close>

text \<open>
  The two regular expressions, matched with \<open>re.match\<close>:
  \<open>^[a-zA-Z_][a-zA-Z0-9_]*$\<close> for a schema and
  \<open>^[a-zA-Z_][a-zA-Z0-9_]*(\.[a-zA-Z_][a-zA-Z0-9_]*)?$\<close> for a table. The anchor \<open>$\<close>
  matches at the end of the string and also before a newline that ends the string.
\<close>

definition ident_start :: "char \<Rightarrow> bool" where
  "ident_start c = (c \<in> set ''abcdefghijklmnopqrstuvwxyzABCDEFGHIJKLMNOPQRSTUVWXYZ_'')"

definition ident_char :: "char \<Rightarrow> bool" where
  "ident_char c =
     (c \<in> set ''abcdefghijklmnopqrstuvwxyzABCDEFGHIJKLMNOPQRSTUVWXYZ0123456789_'')"

definition is_identifier :: "string \<Rightarrow> bool" where
  "is_identifier s = (case s of [] \<Rightarrow> False | c # cs \<Rightarrow> ident_start c \<and> list_all ident_char cs)"

definition is_qualified :: "string \<Rightarrow> bool" where
  "is_qualified s =
     (let first = takeWhile (\<lambda>c. c \<noteq> CHR ''.'') s;
          rest = dropWhile (\<lambda>c. c \<noteq> CHR ''.'') s
      in is_identifier first \<and> (if rest = [] then True else is_identifier (tl rest)))"

definition re_dollar :: "(string \<Rightarrow> bool) \<Rightarrow> string \<Rightarrow> bool" where
  "re_dollar full s =
     (if full s then True
      else if s = [] then False
      else last s = CHR ''\<newline>'' \<and> full (butlast s))"

definition match_schema_name :: "string \<Rightarrow> bool" where
  "match_schema_name s = re_dollar is_identifier s"

definition match_table_name :: "string \<Rightarrow> bool" where
  "match_table_name s = re_dollar is_qualified s"

text \<open>
  \<open>set(xs) & set(ys)\<close> as the list of its elements, once each. Python iterates over a set
  in the order of its hash table, which the argument \<open>hash_order\<close> stands for: a
  rearrangement of the list it is given.
\<close>

definition conflicts_of :: "(string list \<Rightarrow> string list) \<Rightarrow> string list \<Rightarrow> string list \<Rightarrow> string list" where
  "conflicts_of hash_order xs ys = hash_order (remdups (filter (\<lambda>x. x \<in> set ys) xs))"

text \<open>\<open>validate_backup_config\<close>: the list of error messages, in the order they are appended.\<close>

definition validate_backup_config :: "(string list \<Rightarrow> string list) \<Rightarrow> BackupConfig \<Rightarrow> string list" where
  "validate_backup_config hash_order config =
     (if \<not> (1 \<le> parallel_jobs config \<and> parallel_jobs config \<le> 32)
      then [''Parallel jobs must be between 1 and 32''] else [])
     @ map (\<lambda>schema'. ''Invalid schema name in exclude_schemas: '' @ schema')
         (filter (\<lambda>schema'. \<not> match_schema_name schema') (exclude_schemas config))
     @ map (\<lambda>schema'. ''Invalid schema name in include_schemas: '' @ schema')
         (filter (\<lambda>schema'. \<not> match_schema_name schema') (include_schemas config))
     @ map (\<lambda>table. ''Invalid table name in exclude_tables: '' @ table)
         (filter (\<lambda>table. \<not> match_table_name table) (exclude_tables config))
     @ map (\<lambda>table. ''Invalid table name in include_tables: '' @ table)
         (filter (\<lambda>table. \<not> match_table_name table) (include_tables config))
     @ (if exclude_schemas config \<noteq> [] \<and> include_schemas config \<noteq> []
        then (let conflicts = conflicts_of hash_order (exclude_schemas config) (include_schemas config)
              in if conflicts \<noteq> []
                 then [''Schemas cannot be both included and excluded: '' @ join '', '' conflicts]
                 else [])
        else [])
     @ (if exclude_tables config \<noteq> [] \<and> include_tables config \<noteq> []
        then (let conflicts = conflicts_of hash_order (exclude_tables config) (include_tables config)
              in if conflicts \<noteq> []
                 then [''Tables cannot be both included and excluded: '' @ join '', '' conflicts]
                 else [])
        else [])"

section \<open>The scheduler (\<open>core/scheduler.py\<close>)\<close>

text \<open>
  In this section a datetime is counted from the midnight that begins 1 January of year 1,
  so that the time of day of \<open>t\<close> is \<open>t mod day_us\<close> and the day of ordinal \<open>n\<close> begins at
  \<open>(n - 1) * day_us\<close>. The difference of two datetimes is a \<open>timedelta\<close>, whose
  \<open>total_seconds()\<close> is its number of microseconds divided by \<open>10 ^ 6\<close>: it lies between
  \<open>0\<close> and \<open>60\<close> exactly when the number of microseconds lies between \<open>0\<close> and
  \<open>60 * second_us\<close>.
\<close>

definition second_us :: int where
  "second_us = 1000000"

definition day_us :: int where
  "day_us = 86400 * second_us"

definition at_time :: "int \<Rightarrow> int \<Rightarrow> int \<Rightarrow> int \<Rightarrow> datetime" where
  "at_time ordinal hour minute second' =
     (ordinal - 1) * day_us + (hour * 3600 + minute * 60 + second') * second_us"

subsection \<open>\<open>BackupScheduler._should_run_job\<close>\<close>

text \<open>
  \<open>croniter\<close> is a library. What \<open>croniter(expr, now).get_next(datetime)\<close> answers is an
  argument of the model: the exception raised for the expression, or the next fire time.
\<close>

type_synonym croniter = "string \<Rightarrow> datetime \<Rightarrow> py_exc + datetime"

definition should_run_job :: "croniter \<Rightarrow> BackupJob \<Rightarrow> datetime \<Rightarrow> py_exc + bool" where
  "should_run_job croniter job now =
     (case schedule job of
        None \<Rightarrow> Inr False
      | Some expr \<Rightarrow>
          if expr = [] then Inr False
          else (case croniter expr now of
                  Inl e \<Rightarrow> if is_Exception e then Inr False else Inl e
                | Inr next_run \<Rightarrow>
                    (let time_diff = next_run - now
                     in Inr (0 \<le> time_diff \<and> time_diff \<le> 60 * second_us))))"

subsection \<open>\<open>datetime.strptime\<close> with the format \<open>%Y%m%d_%H%M%S\<close>\<close>

text \<open>
  \<open>strptime\<close> turns the format into a regular expression, one group for each directive,
  and matches it at the start of the string with \<open>re.match\<close>:
  \<open>%Y\<close> is \<open>\d\d\d\d\<close>, \<open>%m\<close> is \<open>1[0-2]|0[1-9]|[1-9]\<close>,
  \<open>%d\<close> is \<open>3[0-1]|[1-2]\d|0[1-9]|[1-9]| [1-9]\<close>, the underscore is itself,
  \<open>%H\<close> is \<open>2[0-3]|[0-1]\d|\d\<close>, \<open>%M\<close> is \<open>[0-5]\d|\d\<close> and
  \<open>%S\<close> is \<open>6[0-1]|[0-5]\d|\d\<close>.
  An alternative is a list of character classes, one for each position, and a class is the
  string of its characters. \<open>match_groups\<close> lists the ways the groups match a prefix of
  the string, in the order in which a backtracking matcher finds them; each way is the
  texts of the groups and the rest of the string. \<open>re.match\<close> returns the first.
\<close>

fun match_classes :: "string list \<Rightarrow> string \<Rightarrow> (string \<times> string) option" where
  "match_classes [] s = Some ([], s)"
| "match_classes (cls # classes) [] = None"
| "match_classes (cls # classes) (c # s) =
     (if c \<in> set cls
      then (case match_classes classes s of
              None \<Rightarrow> None
            | Some (matched, rest) \<Rightarrow> Some (c # matched, rest))
      else None)"

definition match_group :: "string list list \<Rightarrow> string \<Rightarrow> (string \<times> string) list" where
  "match_group alternatives s = List.map_filter (\<lambda>alt. match_classes alt s) alternatives"

fun match_groups :: "string list list list \<Rightarrow> string \<Rightarrow> (string list \<times> string) list" where
  "match_groups [] s = [([], s)]"
| "match_groups (g # gs) s =
     concat (map (\<lambda>(matched, rest).
                    map (\<lambda>(found, rest'). (matched # found, rest')) (match_groups gs rest))
                 (match_group g s))"

definition digit :: string where
  "digit = ''0123456789''"

definition nonzero :: string where
  "nonzero = ''123456789''"

definition format_regex :: "string list list list" where
  "format_regex =
     [[[digit, digit, digit, digit]],
      [[''1'', ''012''], [''0'', nonzero], [nonzero]],
      [[''3'', ''01''], [''12'', digit], [''0'', nonzero], [nonzero], ['' '', nonzero]],
      [[''_'']],
      [[''2'', ''0123''], [''01'', digit], [digit]],
      [[''012345'', digit], [digit]],
      [[''6'', ''01''], [''012345'', digit], [digit]]]"

text \<open>\<open>int(s)\<close> for the text of a group: decimal digits, after a blank for a day.\<close>

definition int_of_digits :: "string \<Rightarrow> nat" where
  "int_of_digits s =
     foldl (\<lambda>n c. 10 * n + (of_char c - 48)) 0 (dropWhile (\<lambda>c. c = CHR '' '') s)"

text \<open>
  The proleptic Gregorian calendar of \<open>datetime\<close>: \<open>ymd2ord\<close> is the ordinal of a day,
  1 for 1 January of year 1. The constructor of \<open>datetime\<close> raises \<open>ValueError\<close> for a
  field out of range, among them the year 0 and the seconds 60 and 61 that the regular
  expression lets through.
\<close>

definition is_leap :: "nat \<Rightarrow> bool" where
  "is_leap y = (y mod 4 = 0 \<and> (if y mod 100 = 0 then y mod 400 = 0 else True))"

definition days_in_month :: "nat \<Rightarrow> nat \<Rightarrow> nat" where
  "days_in_month y m =
     (if m = 2 then (if is_leap y then 29 else 28)
      else if m = 4 \<or> m = 6 \<or> m = 9 \<or> m = 11 then 30 else 31)"

definition days_before_year :: "nat \<Rightarrow> nat" where
  "days_before_year y = (y - 1) * 365 + (y - 1) div 4 + (y - 1) div 400 - (y - 1) div 100"

definition days_before_month :: "nat \<Rightarrow> nat \<Rightarrow> nat" where
  "days_before_month y m = sum_list (map (days_in_month y) [1..<m])"

definition ymd2ord :: "nat \<Rightarrow> nat \<Rightarrow> nat \<Rightarrow> nat" where
  "ymd2ord y m d = days_before_year y + days_before_month y m + d"

definition make_datetime :: "nat \<Rightarrow> nat \<Rightarrow> nat \<Rightarrow> nat \<Rightarrow> nat \<Rightarrow> nat \<Rightarrow> py_exc + datetime" where
  "make_datetime y m d hour minute second' =
     (if y < 1 \<or> 9999 < y then Inl (Raised ValueError ''year is out of range'')
      else if m < 1 \<or> 12 < m then Inl (Raised ValueError ''month must be in 1..12'')
      else if d < 1 \<or> days_in_month y m < d
        then Inl (Raised ValueError ''day is out of range for month'')
      else if 23 < hour then Inl (Raised ValueError ''hour must be in 0..23'')
      else if 59 < minute then Inl (Raised ValueError ''minute must be in 0..59'')
      else if 59 < second' then Inl (Raised ValueError ''second must be in 0..59'')
      else Inr (at_time (int (ymd2ord y m d)) (int hour) (int minute) (int second')))"

definition strptime :: "string \<Rightarrow> py_exc + datetime" where
  "strptime data_string =
     (case match_groups format_regex data_string of
        [] \<Rightarrow> Inl (Raised ValueError ''time data does not match format'')
      | (found, rest) # later \<Rightarrow>
          if rest \<noteq> [] then Inl (Raised ValueError ''unconverted data remains'')
          else (case found of
                  [Y, m, d, underscore, H, M, S] \<Rightarrow>
                    make_datetime (int_of_digits Y) (int_of_digits m) (int_of_digits d)
                      (int_of_digits H) (int_of_digits M) (int_of_digits S)
                | _ \<Rightarrow> Inl (Raised ValueError ''time data does not match format'')))"

subsection \<open>\<open>BackupScheduler._handle_retention\<close>\<close>

text \<open>
  \<open>datetime.now() - timedelta(days=n)\<close>: \<open>OverflowError\<close> when the days are beyond
  those of a \<open>timedelta\<close> or the result is outside the years 1 to 9999.
\<close>

definition minus_days :: "datetime \<Rightarrow> int \<Rightarrow> py_exc + datetime" where
  "minus_days t days =
     (if days < - 999999999 \<or> 999999999 < days
      then Inl (Raised OtherException ''days out of range'')
      else (let r = t - days * day_us
            in if r < 0 \<or> 3652059 * day_us \<le> r
               then Inl (Raised OtherException ''date value out of range'')
               else Inr r))"

text \<open>
  The file system and the clock of a sweep: \<open>datetime.now()\<close>, \<open>Path.exists\<close>, the paths
  that \<open>Path.glob\<close> yields for a directory and a pattern, and \<open>Path.unlink\<close> with the
  exception it may raise. A file that is unlinked is recorded as the event \<open>Unlink\<close>.
\<close>

record sweep_env =
  datetime_now :: datetime
  dir_exists :: "path \<Rightarrow> bool"
  dir_glob :: "path \<Rightarrow> string \<Rightarrow> path list"
  file_unlink :: "path \<Rightarrow> py_exc option"

text \<open>The body of the inner \<open>try\<close> for one file: the events, and the exception raised.\<close>

definition retention_try :: "sweep_env \<Rightarrow> datetime \<Rightarrow> path \<Rightarrow> event list \<times> py_exc option" where
  "retention_try env cutoff_date backup_file' =
     (let pieces = split_chr (CHR ''_'') (path_stem backup_file')
      in if pieces = [] then ([], Some (Raised IndexError ''list index out of range''))
         else (let timestamp_str = last pieces
               in case strptime timestamp_str of
                    Inl e \<Rightarrow> ([], Some e)
                  | Inr file_date \<Rightarrow>
                      if file_date < cutoff_date
                      then (case file_unlink env backup_file' of
                              Some e \<Rightarrow> ([], Some e)
                            | None \<Rightarrow> ([Unlink backup_file'], None))
                      else ([], None)))"

text \<open>\<open>except (ValueError, IndexError): continue\<close>.\<close>

fun is_skipped :: "py_exc \<Rightarrow> bool" where
  "is_skipped (Raised c m) = (c = ValueError \<or> c = IndexError)"

fun retention_loop :: "sweep_env \<Rightarrow> datetime \<Rightarrow> path list \<Rightarrow> event list \<times> py_exc option" where
  "retention_loop env cutoff_date [] = ([], None)"
| "retention_loop env cutoff_date (backup_file' # files) =
     (case retention_try env cutoff_date backup_file' of
        (evs, Some e) \<Rightarrow>
          if is_skipped e
          then (case retention_loop env cutoff_date files of (evs', out) \<Rightarrow> (evs @ evs', out))
          else (evs, Some e)
      | (evs, None) \<Rightarrow>
          (case retention_loop env cutoff_date files of (evs', out) \<Rightarrow> (evs @ evs', out)))"

text \<open>
  The sweep: its events, and the exception that leaves it, which the outer handler
  \<open>except Exception\<close> allows only for a class outside \<open>Exception\<close>.
\<close>

definition handle_retention :: "sweep_env \<Rightarrow> BackupJob \<Rightarrow> event list \<times> py_exc option" where
  "handle_retention env job =
     (if \<not> dir_exists env (backup_dir job) then ([], None)
      else (case minus_days (datetime_now env) (retention_days job) of
              Inl e \<Rightarrow> ([], None)
            | Inr cutoff_date \<Rightarrow>
                (case retention_loop env cutoff_date
                        (dir_glob env (backup_dir job) (name job @ ''_*'')) of
                   (evs, Some e) \<Rightarrow> if is_Exception e then (evs, None) else (evs, Some e)
                 | (evs, None) \<Rightarrow> (evs, None))))"

section \<open>Example inputs\<close>

definition example_db :: DatabaseConfig where
  "example_db = \<lparr>host = ''localhost'', port = 5432, database = ''shop'', username = ''postgres'',
                  password = ''secret'', ssl_mode = ''prefer'', connection_timeout = 30\<rparr>"

definition example_config :: BackupConfig where
  "example_config = \<lparr>backup_type = FULL, compression = GZIP, encryption = ENC_NONE,
                      encryption_key = None, parallel_jobs = 1, exclude_schemas = [],
                      include_schemas = [], exclude_tables = [], include_tables = [],
                      verbose = True, clean_before_restore = True, no_owner = True,
                      no_privileges = True\<rparr>"

definition example_job :: BackupJob where
  "example_job = \<lparr>id' = ''job1'', name = ''jobname'', source_config = example_db,
                   backup_config = example_config, backup_dir = ''/backups'',
                   schedule = Some ''0 2 * * *'', retention_days = 30, enabled = True\<rparr>"

definition example_result :: BackupResult where
  "example_result = \<lparr>job_id = ''job1'', status = RUNNING, backup_file = None, start_time = 0,
                      end_time = None, size_bytes = 0, size_compressed = 0, tables_count = 0,
                      error_message = None, checksum = None, metadata = []\<rparr>"

text \<open>A backup manager with one running operation, \<open>job1\<close>, and its callback.\<close>

definition example_state :: backup_state where
  "example_state = \<lparr>heap = [example_result], active_backups = [''job1'' \<mapsto> 0],
                     progress_callbacks = [''job1'' \<mapsto> 7], events = []\<rparr>"

definition example_restore_result :: RestoreResult where
  "example_restore_result =
     \<lparr>backup_file_r = ''/backups/backup.dump'', target_config = example_db, status_r = RUNNING,
      start_time_r = 0, end_time_r = None, tables_restored = 0, error_message_r = None,
      verification_passed = False\<rparr>"

definition example_restore_state :: restore_state where
  "example_restore_state =
     \<lparr>heap_r = [example_restore_result], active_restores = [''restore_1'' \<mapsto> 0],
      progress_callbacks_r = [''restore_1'' \<mapsto> 7], events_r = []\<rparr>"

text \<open>
  A process that is seen running at two polls, one and two seconds after its start, and
  has exited with code 0 at the third; and the same run during whose second sleep the
  operation is cancelled.
\<close>

definition example_run :: proc_run where
  "example_run = \<lparr>returncode_at = (\<lambda>k. if k < 2 then None else Some 0),
                   elapsed_at = (\<lambda>k. int k + 1), cancel_at = (\<lambda>k. None),
                   stderr_text = []\<rparr>"


text \<open>
  A manager with no operation, an environment in which every step succeeds and
  \<open>pg_dump\<close> runs as \<open>example_run\<close>, a job with four parallel jobs, and an environment in
  which the task is cancelled while it awaits the database probe.
\<close>

definition example_idle_state :: backup_state where
  "example_idle_state = \<lparr>heap = [], active_backups = Map.empty,
                          progress_callbacks = Map.empty, events = []\<rparr>"

definition example_env :: backup_env where
  "example_env = \<lparr>clock_start = 1000, clock_end = 2000, timestamp = ''20200101_000000'',
                   get_database_info = Inr [(''table_count'', IntV 12)],
                   mkdir = None, mkdtemp = Inr ''/tmp/tmpab12'',
                   create_subprocess_exec = (\<lambda>cmd. Inr example_run),
                   tar_add = None, clock_failed = 3000,
                   sha256_hexdigest = Inr ''e3b0c442'', stat_st_size = Inr 4096\<rparr>"

definition example_parallel_job :: BackupJob where
  "example_parallel_job = example_job\<lparr>backup_config := example_config\<lparr>parallel_jobs := 4\<rparr>\<rparr>"

definition example_cancelled_env :: backup_env where
  "example_cancelled_env = example_env\<lparr>get_database_info := Inl (Raised CancelledError [])\<rparr>"


text \<open>
  An artifact that exists and that every tool reads without error, with ten tables in
  its listing; and an environment in which the target database does not exist, is created,
  and every process runs as \<open>example_run\<close>. After the restore the database reports
  \<open>example_tables_after\<close> tables.
\<close>

definition example_listing :: string where
  "example_listing = concat (replicate 10 ''TABLE public t; '')"

definition example_artifact :: artifact_env where
  "example_artifact =
     \<lparr>exists_file = True, stat_file = Inr (4096, ''2020-01-01T00:00:00'', ''2020-01-01T00:00:00''),
      pg_restore_list = Inr (0, example_listing),
      tar_getmembers = Inr [\<lparr>member_name = ''jobname_dir/toc.dat'', member_size = 4096,
                              member_read = Inr example_listing\<rparr>],
      gzip_read = Inr ''CREATE TABLE t (id integer);'',
      open_read = Inr ''CREATE TABLE t (id integer);''\<rparr>"

definition example_restore_env :: "int \<Rightarrow> restore_env" where
  "example_restore_env example_tables_after =
     \<lparr>artifact = example_artifact, time_time = 1577836800,
      clock_start_r = 1000, clock_end_r = 2000, clock_failed_r = 3000,
      database_exists = Inr False, drop_database = Inr True, create_database = Inr True,
      subprocess_exec_r = (\<lambda>cmd. Inr example_run),
      mkdtemp_r = Inr ''/tmp/tmpcd34'', tar_extractall = Inr [''/tmp/tmpcd34/jobname_dir''],
      open_rb = None,
      get_database_info_r = Inr [(''table_count'', IntV example_tables_after)]\<rparr>"

definition example_idle_restore_state :: restore_state where
  "example_idle_restore_state = \<lparr>heap_r = [], active_restores = Map.empty,
                                  progress_callbacks_r = Map.empty, events_r = []\<rparr>"

text \<open>
  A configuration that excludes and includes the schema \<open>tmp\<close>, and one whose lists are
  disjoint.
\<close>

definition example_conflicting_config :: BackupConfig where
  "example_conflicting_config =
     example_config\<lparr>exclude_schemas := [''audit'', ''tmp''], include_schemas := [''tmp'', ''public''],
                     exclude_tables := [''public.logs''], include_tables := [''public.users'']\<rparr>"

definition example_disjoint_config :: BackupConfig where
  "example_disjoint_config =
     example_config\<lparr>exclude_schemas := [''audit''], include_schemas := [''public''],
                     exclude_tables := [''public.logs''], include_tables := [''public.users'']\<rparr>"

text \<open>
  The answers of \<open>croniter\<close> for the expression \<open>0 2 * * *\<close>, the only one the examples
  use: the first 02:00:00 strictly after the start time. The ticks of the examples are on
  1 January 2024, the day of ordinal 738886.
\<close>

definition next_daily :: "int \<Rightarrow> int \<Rightarrow> datetime \<Rightarrow> datetime" where
  "next_daily hour minute now =
     (let ahead = ((hour * 3600 + minute * 60) * second_us - now) mod day_us
      in now + (if ahead = 0 then day_us else ahead))"

definition example_croniter :: croniter where
  "example_croniter expr now =
     (if expr = ''0 2 * * *'' then Inr (next_daily 2 0 now)
      else Inl (Raised ValueError ''expression outside the examples''))"

definition example_tick_015930 :: datetime where
  "example_tick_015930 = at_time 738886 1 59 30"

definition example_tick_020030 :: datetime where
  "example_tick_020030 = at_time 738886 2 0 30"

definition example_tick_020130 :: datetime where
  "example_tick_020130 = at_time 738886 2 1 30"

text \<open>
  A backup directory on 1 January 2024 that holds one artifact of the job \<open>jobname\<close>, written
  on 1 January 2020, and a file \<open>random.sql\<close>, which the pattern \<open>jobname_*\<close> does not
  match.
\<close>

definition example_sweep_env :: sweep_env where
  "example_sweep_env =
     \<lparr>datetime_now = example_tick_020030,
      dir_exists = (\<lambda>p. p = ''/backups''),
      dir_glob = (\<lambda>p pattern. if p = ''/backups'' \<and> pattern = ''jobname_*''
                               then [''/backups/jobname_20200101_000000.sql''] else []),
      file_unlink = (\<lambda>p. None)\<rparr>"

section \<open>Predicates used to state the properties\<close>

text \<open>A time-based estimate: a progress callback with a percentage of at most 95.\<close>

definition is_estimate :: "event \<Rightarrow> bool" where
  "is_estimate e = (case e of Progress cb pct m \<Rightarrow> pct \<le> 95 | _ \<Rightarrow> False)"

definition is_progress :: "event \<Rightarrow> bool" where
  "is_progress e = (case e of Progress cb pct m \<Rightarrow> True | _ \<Rightarrow> False)"

text \<open>
  The suffix of the output file of the custom-format strategy and the suffix and mode of
  the archive of the directory strategy, by compression, as the specification words them.
\<close>

definition custom_suffix :: "CompressionType \<Rightarrow> string" where
  "custom_suffix c = (if c = GZIP then ''.dump.gz'' else if c = BZIP2 then ''.dump.bz2'' else ''.dump'')"

definition tar_suffix :: "CompressionType \<Rightarrow> string" where
  "tar_suffix c = (if c = GZIP then ''.tar.gz'' else if c = BZIP2 then ''.tar.bz2'' else ''.tar'')"

definition tar_mode :: "CompressionType \<Rightarrow> string" where
  "tar_mode c = (if c = GZIP then ''w:gz'' else if c = BZIP2 then ''w:bz2'' else ''w'')"

text \<open>Every external process that the environment starts exits at some poll.\<close>

definition processes_exit :: "backup_env \<Rightarrow> bool" where
  "processes_exit env = (\<forall>cmd p. create_subprocess_exec env cmd = Inr p \<longrightarrow> (\<exists>n. returncode_at p n \<noteq> None))"

section \<open>Properties of the monitors and registries\<close>

subsection \<open>Cancellation\<close>

lemma cancel_backup_frame:
  "length (heap (fst (cancel_backup s jid now))) = length (heap s)"
  "events (fst (cancel_backup s jid now)) = events s"
  by (simp_all add: cancel_backup_def split: option.splits)

lemma cancel_restore_frame:
  "length (heap_r (fst (cancel_restore s rid now))) = length (heap_r s)"
  "events_r (fst (cancel_restore s rid now)) = events_r s"
  by (simp_all add: cancel_restore_def split: option.splits)

text \<open>
  C10. \<open>cancel_backup(job_id)\<close> returns \<open>True\<close> exactly when the id is in the active
  registry. When it does not, the state is unchanged. When it does, the registered result
  object gets status \<open>CANCELLED\<close> and the time of the call as its end time, and the id is
  in neither registry afterwards. The same holds of \<open>cancel_restore(restore_id)\<close>.
\<close>

theorem cancel_registry:
  "(snd (cancel_backup s jid now) \<longleftrightarrow> jid \<in> dom (active_backups s))
   \<and> (jid \<notin> dom (active_backups s) \<longrightarrow> fst (cancel_backup s jid now) = s)
   \<and> (\<forall>r. active_backups s jid = Some r \<and> r < length (heap s) \<longrightarrow>
         status (heap (fst (cancel_backup s jid now)) ! r) = CANCELLED
         \<and> end_time (heap (fst (cancel_backup s jid now)) ! r) = Some now)
   \<and> (jid \<in> dom (active_backups s) \<longrightarrow>
         active_backups (fst (cancel_backup s jid now)) jid = None
         \<and> progress_callbacks (fst (cancel_backup s jid now)) jid = None)
   \<and> (snd (cancel_restore t rid now) \<longleftrightarrow> rid \<in> dom (active_restores t))
   \<and> (rid \<notin> dom (active_restores t) \<longrightarrow> fst (cancel_restore t rid now) = t)
   \<and> (\<forall>r. active_restores t rid = Some r \<and> r < length (heap_r t) \<longrightarrow>
         status_r (heap_r (fst (cancel_restore t rid now)) ! r) = CANCELLED
         \<and> end_time_r (heap_r (fst (cancel_restore t rid now)) ! r) = Some now)
   \<and> (rid \<in> dom (active_restores t) \<longrightarrow>
         active_restores (fst (cancel_restore t rid now)) rid = None
         \<and> progress_callbacks_r (fst (cancel_restore t rid now)) rid = None)"
  by (auto simp: cancel_backup_def cancel_restore_def split: option.splits)

theorem cancel_registry_witness:
  "snd (cancel_backup example_state ''job1'' 99)
   \<and> status (heap (fst (cancel_backup example_state ''job1'' 99)) ! 0) = CANCELLED
   \<and> end_time (heap (fst (cancel_backup example_state ''job1'' 99)) ! 0) = Some 99
   \<and> active_backups (fst (cancel_backup example_state ''job1'' 99)) ''job1'' = None
   \<and> progress_callbacks (fst (cancel_backup example_state ''job1'' 99)) ''job1'' = None
   \<and> cancel_backup example_state ''job2'' 99 = (example_state, False)
   \<and> snd (cancel_restore example_restore_state ''restore_1'' 99)
   \<and> status_r (heap_r (fst (cancel_restore example_restore_state ''restore_1'' 99)) ! 0) = CANCELLED
   \<and> end_time_r (heap_r (fst (cancel_restore example_restore_state ''restore_1'' 99)) ! 0) = Some 99
   \<and> active_restores (fst (cancel_restore example_restore_state ''restore_1'' 99)) ''restore_1'' = None
   \<and> progress_callbacks_r (fst (cancel_restore example_restore_state ''restore_1'' 99)) ''restore_1'' = None
   \<and> cancel_restore example_restore_state ''restore_2'' 99 = (example_restore_state, False)"
proof -
  have a: "active_backups example_state ''job1'' = Some 0 \<and> 0 < length (heap example_state)"
    and b: "active_restores example_restore_state ''restore_1'' = Some 0
            \<and> 0 < length (heap_r example_restore_state)"
    and c: "''job2'' \<notin> dom (active_backups example_state)"
    and d: "''restore_2'' \<notin> dom (active_restores example_restore_state)"
    by (simp_all add: example_state_def example_restore_state_def)
  note w = cancel_registry [of example_state "''job1''" 99 example_restore_state "''restore_1''"]
  note v = cancel_registry [of example_state "''job2''" 99 example_restore_state "''restore_2''"]
  from w a b have "snd (cancel_backup example_state ''job1'' 99)"
    "status (heap (fst (cancel_backup example_state ''job1'' 99)) ! 0) = CANCELLED"
    "end_time (heap (fst (cancel_backup example_state ''job1'' 99)) ! 0) = Some 99"
    "active_backups (fst (cancel_backup example_state ''job1'' 99)) ''job1'' = None"
    "progress_callbacks (fst (cancel_backup example_state ''job1'' 99)) ''job1'' = None"
    "snd (cancel_restore example_restore_state ''restore_1'' 99)"
    "status_r (heap_r (fst (cancel_restore example_restore_state ''restore_1'' 99)) ! 0) = CANCELLED"
    "end_time_r (heap_r (fst (cancel_restore example_restore_state ''restore_1'' 99)) ! 0) = Some 99"
    "active_restores (fst (cancel_restore example_restore_state ''restore_1'' 99)) ''restore_1'' = None"
    "progress_callbacks_r (fst (cancel_restore example_restore_state ''restore_1'' 99)) ''restore_1'' = None"
    by blast+
  moreover from v c d have "cancel_backup example_state ''job2'' 99 = (example_state, False)"
    "cancel_restore example_restore_state ''restore_2'' 99 = (example_restore_state, False)"
    by (metis prod.collapse)+
  ultimately show ?thesis by simp
qed

subsection \<open>The monitor of a backup process\<close>

lemma cancel_backup_callbacks:
  "progress_callbacks (fst (cancel_backup s jid now)) jid = None
   \<or> progress_callbacks (fst (cancel_backup s jid now)) = progress_callbacks s"
  by (simp add: cancel_backup_def split: option.splits)

lemma monitor_backup_poll_frame:
  "length (heap (monitor_backup_poll p jid msg k s)) = length (heap s)"
  "\<exists>u. events (monitor_backup_poll p jid msg k s) = events s @ u \<and> list_all is_estimate u"
  by (simp_all add: monitor_backup_poll_def Let_def cancel_backup_frame is_estimate_def
        split: option.splits)

lemma monitor_backup_poll_quiet:
  "cancel_at p k = None \<Longrightarrow>
     progress_callbacks (monitor_backup_poll p jid msg k s) = progress_callbacks s"
  by (simp add: monitor_backup_poll_def Let_def split: option.splits)

text \<open>The loop returns as soon as the process has a return code.\<close>

lemma monitor_backup_loop_returns:
  "returncode_at p (k + d) \<noteq> None \<Longrightarrow> \<exists>res. monitor_backup_loop p jid msg k s = Some res"
proof (induction d arbitrary: k s)
  case 0
  then show ?case
    by (subst monitor_backup_loop.simps) (auto split: option.splits)
next
  case (Suc d)
  then have "returncode_at p (Suc k + d) \<noteq> None" by simp
  from Suc.IH [OF this, of "monitor_backup_poll p jid msg k s"]
  obtain res where r:
    "monitor_backup_loop p jid msg (Suc k) (monitor_backup_poll p jid msg k s) = Some res"
    by blast
  show ?case
  proof (cases "returncode_at p k")
    case None
    then show ?thesis using r by (subst monitor_backup_loop.simps) simp
  next
    case (Some rc)
    then show ?thesis by (subst monitor_backup_loop.simps) simp
  qed
qed

text \<open>What a returned loop has done: estimates only, on a store of the same size.\<close>

lemma monitor_backup_loop_frame:
  assumes "monitor_backup_loop p jid msg k s = Some res"
  shows "length (heap (fst res)) = length (heap s)
     \<and> (\<exists>ups. events (fst res) = events s @ ups \<and> list_all is_estimate ups)"
  using assms
proof (induction p jid msg k s res rule: monitor_backup_loop.raw_induct [rotated 1, consumes 1])
  case (1 loop p jid msg k s res)
  show ?case
  proof (cases "returncode_at p k")
    case None
    with 1(2) have "loop p jid msg (Suc k) (monitor_backup_poll p jid msg k s) = Some res"
      by simp
    from 1(1) [OF this]
    obtain ups where a:
      "length (heap (fst res)) = length (heap (monitor_backup_poll p jid msg k s))"
      "events (fst res) = events (monitor_backup_poll p jid msg k s) @ ups"
      "list_all is_estimate ups"
      by blast
    from monitor_backup_poll_frame(2) [of p jid msg k s]
    obtain u where b: "events (monitor_backup_poll p jid msg k s) = events s @ u"
      "list_all is_estimate u"
      by blast
    have "events (fst res) = events s @ (u @ ups)" "list_all is_estimate (u @ ups)"
      using a b by simp_all
    then show ?thesis
      using a(1) monitor_backup_poll_frame(1) [of p jid msg k s] by metis
  next
    case (Some rc)
    with 1(2) show ?thesis by auto
  qed
qed

lemma monitor_backup_loop_quiet:
  assumes "monitor_backup_loop p jid msg k s = Some res" and "\<forall>j. cancel_at p j = None"
  shows "progress_callbacks (fst res) = progress_callbacks s"
  using assms
proof (induction p jid msg k s res rule: monitor_backup_loop.raw_induct [rotated 1, consumes 1])
  case (1 loop p jid msg k s res)
  show ?case
  proof (cases "returncode_at p k")
    case None
    with 1(2) have "loop p jid msg (Suc k) (monitor_backup_poll p jid msg k s) = Some res"
      by simp
    from 1(1) [OF this 1(3)] show ?thesis
      using 1(3) by (simp add: monitor_backup_poll_quiet)
  next
    case (Some rc)
    with 1(2) show ?thesis by auto
  qed
qed

lemma monitor_backup_process_returns:
  "returncode_at p n \<noteq> None \<Longrightarrow> \<exists>res. monitor_backup_process p jid msg s = Some res"
  using monitor_backup_loop_returns [of p 0 n jid msg s]
  by (auto simp: monitor_backup_process_def)

lemma monitor_backup_process_frame:
  assumes "monitor_backup_process p jid msg s = Some (s', rc)"
  shows "length (heap s') = length (heap s)"
    and "\<exists>ups. events s' = events s @ ups @
            (case progress_callbacks s' jid of None \<Rightarrow> []
             | Some cb \<Rightarrow> [Progress cb 100 (msg @ '' completed'')])
          \<and> list_all is_estimate ups"
    and "(\<forall>j. cancel_at p j = None) \<longrightarrow> progress_callbacks s' = progress_callbacks s"
proof -
  from assms obtain s1 where l: "monitor_backup_loop p jid msg 0 s = Some (s1, rc)"
    and s': "s' = (case progress_callbacks s1 jid of None \<Rightarrow> s1
                  | Some cb \<Rightarrow> s1\<lparr>events := events s1 @ [Progress cb 100 (msg @ '' completed'')]\<rparr>)"
    by (auto simp: monitor_backup_process_def split: option.splits)
  from monitor_backup_loop_frame [OF l]
  obtain ups where f: "length (heap s1) = length (heap s)" "events s1 = events s @ ups"
    "list_all is_estimate ups" by auto
  show "length (heap s') = length (heap s)"
    using f(1) s' by (simp split: option.splits)
  have pc: "progress_callbacks s' = progress_callbacks s1"
    using s' by (simp split: option.splits)
  have "events s' = events s @ ups @
            (case progress_callbacks s' jid of None \<Rightarrow> []
             | Some cb \<Rightarrow> [Progress cb 100 (msg @ '' completed'')])"
    unfolding pc using s' f(2) by (simp split: option.splits)
  with f(3) show "\<exists>ups. events s' = events s @ ups @
            (case progress_callbacks s' jid of None \<Rightarrow> []
             | Some cb \<Rightarrow> [Progress cb 100 (msg @ '' completed'')])
          \<and> list_all is_estimate ups" by blast
  show "(\<forall>j. cancel_at p j = None) \<longrightarrow> progress_callbacks s' = progress_callbacks s"
    using monitor_backup_loop_quiet [OF l] pc by simp
qed

subsection \<open>The monitor of a restore process\<close>

lemma cancel_restore_callbacks:
  "progress_callbacks_r (fst (cancel_restore s jid now)) jid = None
   \<or> progress_callbacks_r (fst (cancel_restore s jid now)) = progress_callbacks_r s"
  by (simp add: cancel_restore_def split: option.splits)

lemma monitor_restore_poll_frame:
  "length (heap_r (monitor_restore_poll p jid msg k s)) = length (heap_r s)"
  "\<exists>u. events_r (monitor_restore_poll p jid msg k s) = events_r s @ u \<and> list_all is_estimate u"
  by (simp_all add: monitor_restore_poll_def Let_def cancel_restore_frame is_estimate_def
        split: option.splits)

lemma monitor_restore_poll_quiet:
  "cancel_at p k = None \<Longrightarrow>
     progress_callbacks_r (monitor_restore_poll p jid msg k s) = progress_callbacks_r s"
  by (simp add: monitor_restore_poll_def Let_def split: option.splits)


lemma monitor_restore_loop_frame:
  assumes "monitor_restore_loop p jid msg k s = Some res"
  shows "length (heap_r (fst res)) = length (heap_r s)
     \<and> (\<exists>ups. events_r (fst res) = events_r s @ ups \<and> list_all is_estimate ups)"
  using assms
proof (induction p jid msg k s res rule: monitor_restore_loop.raw_induct [rotated 1, consumes 1])
  case (1 loop p jid msg k s res)
  show ?case
  proof (cases "returncode_at p k")
    case None
    with 1(2) have "loop p jid msg (Suc k) (monitor_restore_poll p jid msg k s) = Some res"
      by simp
    from 1(1) [OF this]
    obtain ups where a:
      "length (heap_r (fst res)) = length (heap_r (monitor_restore_poll p jid msg k s))"
      "events_r (fst res) = events_r (monitor_restore_poll p jid msg k s) @ ups"
      "list_all is_estimate ups"
      by blast
    from monitor_restore_poll_frame(2) [of p jid msg k s]
    obtain u where b: "events_r (monitor_restore_poll p jid msg k s) = events_r s @ u"
      "list_all is_estimate u"
      by blast
    have "events_r (fst res) = events_r s @ (u @ ups)" "list_all is_estimate (u @ ups)"
      using a b by simp_all
    then show ?thesis
      using a(1) monitor_restore_poll_frame(1) [of p jid msg k s] by metis
  next
    case (Some rc)
    with 1(2) show ?thesis by auto
  qed
qed

lemma monitor_restore_loop_quiet:
  assumes "monitor_restore_loop p jid msg k s = Some res" and "\<forall>j. cancel_at p j = None"
  shows "progress_callbacks_r (fst res) = progress_callbacks_r s"
  using assms
proof (induction p jid msg k s res rule: monitor_restore_loop.raw_induct [rotated 1, consumes 1])
  case (1 loop p jid msg k s res)
  show ?case
  proof (cases "returncode_at p k")
    case None
    with 1(2) have "loop p jid msg (Suc k) (monitor_restore_poll p jid msg k s) = Some res"
      by simp
    from 1(1) [OF this 1(3)] show ?thesis
      using 1(3) by (simp add: monitor_restore_poll_quiet)
  next
    case (Some rc)
    with 1(2) show ?thesis by auto
  qed
qed


lemma monitor_restore_process_frame:
  assumes "monitor_restore_process p jid msg s = Some (s', rc)"
  shows "length (heap_r s') = length (heap_r s)"
    and "\<exists>ups. events_r s' = events_r s @ ups @
            (case progress_callbacks_r s' jid of None \<Rightarrow> []
             | Some cb \<Rightarrow> [Progress cb 100 (msg @ '' completed'')])
          \<and> list_all is_estimate ups"
    and "(\<forall>j. cancel_at p j = None) \<longrightarrow> progress_callbacks_r s' = progress_callbacks_r s"
proof -
  from assms obtain s1 where l: "monitor_restore_loop p jid msg 0 s = Some (s1, rc)"
    and s': "s' = (case progress_callbacks_r s1 jid of None \<Rightarrow> s1
                  | Some cb \<Rightarrow> s1\<lparr>events_r := events_r s1 @ [Progress cb 100 (msg @ '' completed'')]\<rparr>)"
    by (auto simp: monitor_restore_process_def split: option.splits)
  from monitor_restore_loop_frame [OF l]
  obtain ups where f: "length (heap_r s1) = length (heap_r s)" "events_r s1 = events_r s @ ups"
    "list_all is_estimate ups" by auto
  show "length (heap_r s') = length (heap_r s)"
    using f(1) s' by (simp split: option.splits)
  have pc: "progress_callbacks_r s' = progress_callbacks_r s1"
    using s' by (simp split: option.splits)
  have "events_r s' = events_r s @ ups @
            (case progress_callbacks_r s' jid of None \<Rightarrow> []
             | Some cb \<Rightarrow> [Progress cb 100 (msg @ '' completed'')])"
    unfolding pc using s' f(2) by (simp split: option.splits)
  with f(3) show "\<exists>ups. events_r s' = events_r s @ ups @
            (case progress_callbacks_r s' jid of None \<Rightarrow> []
             | Some cb \<Rightarrow> [Progress cb 100 (msg @ '' completed'')])
          \<and> list_all is_estimate ups" by blast
  show "(\<forall>j. cancel_at p j = None) \<longrightarrow> progress_callbacks_r s' = progress_callbacks_r s"
    using monitor_restore_loop_quiet [OF l] pc by simp
qed

subsection \<open>The terminal update\<close>




subsection \<open>The strategies of a full backup\<close>

lemma estimates_are_progress:
  "list_all is_estimate ups \<Longrightarrow>
   list_all is_progress (ups @ (case x of None \<Rightarrow> [] | Some cb \<Rightarrow> [Progress cb pct m]))"
  by (induction ups) (auto simp: is_estimate_def is_progress_def split: option.splits event.splits)

lemma monitor_backup_process_progress:
  assumes "monitor_backup_process p jid msg s = Some (s', rc)"
  shows "\<exists>ups. events s' = events s @ ups \<and> list_all is_progress ups"
  using monitor_backup_process_frame(2) [OF assms] estimates_are_progress by blast

lemma with_suffix_ends: "with_suffix f sfx = Inr final \<Longrightarrow> \<exists>stem. final = stem @ sfx"
  by (auto simp: with_suffix_def Let_def split: if_splits)

lemma create_custom_backup_run:
  assumes "create_custom_backup env job f s = Some (s', out)"
  shows "length (heap s') = length (heap s)"
    and "out = Inr final \<longrightarrow>
         with_suffix f (custom_suffix (compression (backup_config job))) = Inr final
         \<and> (\<exists>ups. events s' = events s @
               [Exec ([''pg_dump''] @ connection_flags (source_config job)
                      @ [''--verbose'', ''--format=custom'']
                      @ structure_flags (backup_config job) @ filter_flags (backup_config job)
                      @ [''--file'', final])
                     [(''PGPASSWORD'', password (source_config job))]] @ ups
              \<and> list_all is_progress ups)"
proof -
  let ?w = "with_suffix f (custom_suffix (compression (backup_config job)))"
  show "length (heap s') = length (heap s)"
  proof (cases ?w)
    case (Inl e)
    with assms show ?thesis
      by (auto simp: create_custom_backup_def custom_suffix_def Let_def split: if_splits)
  next
    case (Inr ff)
    show ?thesis
    proof (cases "create_subprocess_exec env ([''pg_dump''] @ connection_flags (source_config job)
                      @ [''--verbose'', ''--format=custom'']
                      @ structure_flags (backup_config job) @ filter_flags (backup_config job)
                      @ [''--file'', ff])")
      case (Inl e)
      with assms Inr show ?thesis
        by (auto simp: create_custom_backup_def custom_suffix_def Let_def split: if_splits)
    next
      case (Inr p)
      with assms \<open>?w = Inr ff\<close> show ?thesis
        by (auto simp: create_custom_backup_def custom_suffix_def Let_def
              split: if_splits option.splits dest!: monitor_backup_process_frame(1))
    qed
  qed
  show "out = Inr final \<longrightarrow> ?w = Inr final
         \<and> (\<exists>ups. events s' = events s @
               [Exec ([''pg_dump''] @ connection_flags (source_config job)
                      @ [''--verbose'', ''--format=custom'']
                      @ structure_flags (backup_config job) @ filter_flags (backup_config job)
                      @ [''--file'', final])
                     [(''PGPASSWORD'', password (source_config job))]] @ ups
              \<and> list_all is_progress ups)"
  proof (cases ?w)
    case (Inl e)
    with assms show ?thesis
      by (auto simp: create_custom_backup_def custom_suffix_def Let_def split: if_splits)
  next
    case (Inr ff)
    show ?thesis
    proof (cases "create_subprocess_exec env ([''pg_dump''] @ connection_flags (source_config job)
                      @ [''--verbose'', ''--format=custom'']
                      @ structure_flags (backup_config job) @ filter_flags (backup_config job)
                      @ [''--file'', ff])")
      case (Inl e)
      with assms Inr show ?thesis
        by (auto simp: create_custom_backup_def custom_suffix_def Let_def split: if_splits)
    next
      case (Inr p)
      with assms \<open>?w = Inr ff\<close> show ?thesis
        by (auto simp: create_custom_backup_def custom_suffix_def Let_def
              split: if_splits option.splits dest!: monitor_backup_process_progress)
    qed
  qed
qed


lemma create_parallel_backup_run:
  assumes "create_parallel_backup env job f s = Some (s', out)"
  shows "length (heap s') = length (heap s)"
    and "out = Inr final \<longrightarrow>
         with_suffix f (tar_suffix (compression (backup_config job))) = Inr final
         \<and> (\<exists>tmp ups. mkdtemp env = Inr tmp \<and> events s' = events s @
               [Exec ([''pg_dump''] @ connection_flags (source_config job)
                      @ [''--verbose'', ''--format=directory'',
                         ''--jobs='' @ str_int (parallel_jobs (backup_config job)),
                         ''--file'', tmp @ ''/'' @ path_stem f @ ''_dir'']
                      @ structure_flags (backup_config job) @ filter_flags (backup_config job))
                     [(''PGPASSWORD'', password (source_config job))]] @ ups
               @ [Archive final (tar_mode (compression (backup_config job)))
                    (tmp @ ''/'' @ path_stem f @ ''_dir''),
                  Rmtree tmp]
              \<and> list_all is_progress ups)"
proof -
  show "length (heap s') = length (heap s)"
    using assms
    by (auto simp: create_parallel_backup_def archive_directory_def Let_def
          split: if_splits option.splits sum.splits dest!: monitor_backup_process_frame(1))
  show "out = Inr final \<longrightarrow>
         with_suffix f (tar_suffix (compression (backup_config job))) = Inr final
         \<and> (\<exists>tmp ups. mkdtemp env = Inr tmp \<and> events s' = events s @
               [Exec ([''pg_dump''] @ connection_flags (source_config job)
                      @ [''--verbose'', ''--format=directory'',
                         ''--jobs='' @ str_int (parallel_jobs (backup_config job)),
                         ''--file'', tmp @ ''/'' @ path_stem f @ ''_dir'']
                      @ structure_flags (backup_config job) @ filter_flags (backup_config job))
                     [(''PGPASSWORD'', password (source_config job))]] @ ups
               @ [Archive final (tar_mode (compression (backup_config job)))
                    (tmp @ ''/'' @ path_stem f @ ''_dir''),
                  Rmtree tmp]
              \<and> list_all is_progress ups)"
    using assms
    by (auto simp: create_parallel_backup_def archive_directory_def Let_def tar_suffix_def tar_mode_def
          split: if_splits option.splits sum.splits dest!: monitor_backup_process_progress)
qed

lemma create_full_backup_run:
  assumes "create_full_backup env job f s = Some (s', out)"
  shows "length (heap s') = length (heap s)"
proof (cases "parallel_jobs (backup_config job) > 1 \<and> compression (backup_config job) \<noteq> NONE")
  case True
  with assms have "create_parallel_backup env job f s = Some (s', out)"
    by (simp add: create_full_backup_def)
  then show ?thesis by (rule create_parallel_backup_run(1))
next
  case False
  with assms have "create_custom_backup env job f s = Some (s', out)"
    by (simp add: create_full_backup_def)
  then show ?thesis by (rule create_custom_backup_run(1))
qed

lemma monitor_returns_for:
  assumes "processes_exit env" and "create_subprocess_exec env cmd = Inr p"
  shows "\<exists>s' rc. monitor_backup_process p jid msg t = Some (s', rc)"
proof -
  from assms obtain n where "returncode_at p n \<noteq> None"
    unfolding processes_exit_def by blast
  from monitor_backup_process_returns [OF this, of jid msg t] show ?thesis by auto
qed

lemma create_custom_backup_returns:
  assumes "processes_exit env"
  shows "\<exists>res. create_custom_backup env job f s = Some res"
proof (cases "with_suffix f (custom_suffix (compression (backup_config job)))")
  case (Inl e)
  then show ?thesis
    by (simp add: create_custom_backup_def custom_suffix_def Let_def split: if_splits)
next
  case (Inr ff)
  let ?cmd = "[''pg_dump''] @ connection_flags (source_config job)
                      @ [''--verbose'', ''--format=custom'']
                      @ structure_flags (backup_config job) @ filter_flags (backup_config job)
                      @ [''--file'', ff]"
  show ?thesis
  proof (cases "create_subprocess_exec env ?cmd")
    case (Inl e)
    with Inr show ?thesis
      by (simp add: create_custom_backup_def custom_suffix_def Let_def split: if_splits)
  next
    case (Inr p)
    from monitor_returns_for [OF assms Inr]
    obtain s' rc where "monitor_backup_process p (id' job) ''Creating custom backup''
        (s\<lparr>events := events s @ [Exec ?cmd [(''PGPASSWORD'', password (source_config job))]]\<rparr>)
        = Some (s', rc)" by blast
    with Inr \<open>with_suffix f (custom_suffix (compression (backup_config job))) = Inr ff\<close>
    show ?thesis
      by (simp add: create_custom_backup_def custom_suffix_def Let_def split: if_splits)
  qed
qed


lemma create_parallel_backup_returns:
  assumes "processes_exit env"
  shows "\<exists>res. create_parallel_backup env job f s = Some res"
proof (cases "mkdtemp env")
  case (Inl e)
  then show ?thesis by (simp add: create_parallel_backup_def)
next
  case (Inr tmp)
  note tmp = this
  let ?cmd = "[''pg_dump''] @ connection_flags (source_config job)
                @ [''--verbose'', ''--format=directory'',
                   ''--jobs='' @ str_int (parallel_jobs (backup_config job)),
                   ''--file'', tmp @ ''/'' @ path_stem f @ ''_dir'']
                @ structure_flags (backup_config job) @ filter_flags (backup_config job)"
  show ?thesis
  proof (cases "create_subprocess_exec env ?cmd")
    case (Inl e)
    with tmp show ?thesis by (simp add: create_parallel_backup_def Let_def)
  next
    case (Inr p)
    from monitor_returns_for [OF assms Inr]
    obtain s' rc where "monitor_backup_process p (id' job) ''Creating parallel backup''
        (s\<lparr>events := events s @ [Exec ?cmd [(''PGPASSWORD'', password (source_config job))]]\<rparr>)
        = Some (s', rc)" by blast
    with Inr tmp show ?thesis
      by (simp add: create_parallel_backup_def Let_def split: sum.splits)
  qed
qed

lemma create_full_backup_returns:
  assumes "processes_exit env"
  shows "\<exists>s' out. create_full_backup env job f s = Some (s', out)"
  using create_custom_backup_returns [OF assms, of job f s]
    create_parallel_backup_returns [OF assms, of job f s]
  by (auto simp: create_full_backup_def Let_def)


lemma create_backup_try_returns:
  assumes "processes_exit env"
  shows "\<exists>s' out. create_backup_try env job r s = Some (s', out)"
proof (cases "get_database_info env")
  case (Inl e)
  then show ?thesis by (simp add: create_backup_try_def)
next
  case (Inr db_info)
  note db = this
  show ?thesis
  proof (cases "mkdir env")
    case (Some e)
    with db show ?thesis by (simp add: create_backup_try_def)
  next
    case None
    note mk = this
    let ?s1 = "s\<lparr>heap := (heap s)[r := (heap s ! r)
                  \<lparr>tables_count := get_int db_info ''table_count'' 0\<rparr>]\<rparr>"
    show ?thesis
    proof (cases "backup_type (backup_config job) = FULL")
      case False
      with db mk show ?thesis by (simp add: create_backup_try_def Let_def)
    next
      case True
      note full = this
      from create_full_backup_returns [OF assms, of job "get_backup_file_path env job" ?s1]
      obtain s2 out where f:
        "create_full_backup env job (get_backup_file_path env job) ?s1 = Some (s2, out)"
        by blast
      show ?thesis
      proof (cases out)
        case (Inl e)
        with db mk full f show ?thesis by (simp add: create_backup_try_def Let_def)
      next
        case (Inr final)
        note fin = this
        show ?thesis
        proof (cases "sha256_hexdigest env")
          case (Inl e)
          with db mk full f fin show ?thesis by (simp add: create_backup_try_def Let_def)
        next
          case (Inr digest)
          with db mk full f fin show ?thesis
            by (cases "stat_st_size env") (simp_all add: create_backup_try_def Let_def)
        qed
      qed
    qed
  qed
qed


lemma create_backup_try_run:
  assumes "create_backup_try env job r s = Some (s', out)"
  shows "length (heap s') = length (heap s)
        \<and> (r < length (heap s) \<longrightarrow> out = Inr () \<longrightarrow> status (heap s' ! r) = COMPLETED)"
proof (cases "get_database_info env")
  case (Inl e)
  with assms show ?thesis by (auto simp: create_backup_try_def)
next
  case (Inr db_info)
  note db = this
  show ?thesis
  proof (cases "mkdir env")
    case (Some e)
    with db assms show ?thesis by (auto simp: create_backup_try_def)
  next
    case None
    note mk = this
    let ?s1 = "s\<lparr>heap := (heap s)[r := (heap s ! r)
                  \<lparr>tables_count := get_int db_info ''table_count'' 0\<rparr>]\<rparr>"
    show ?thesis
    proof (cases "backup_type (backup_config job) = FULL")
      case False
      with db mk assms show ?thesis by (auto simp: create_backup_try_def Let_def)
    next
      case True
      note full = this
      have "create_full_backup env job (get_backup_file_path env job) ?s1 \<noteq> None"
        using assms db mk full by (auto simp: create_backup_try_def split: option.splits)
      then obtain s2 out2 where f:
        "create_full_backup env job (get_backup_file_path env job) ?s1 = Some (s2, out2)"
        by auto
      from create_full_backup_run [OF f] have l: "length (heap s2) = length (heap s)" by simp
      show ?thesis
      proof (cases out2)
        case (Inl e)
        with db mk full f assms l show ?thesis by (auto simp: create_backup_try_def Let_def)
      next
        case (Inr final)
        note fin = this
        show ?thesis
        proof (cases "sha256_hexdigest env")
          case (Inl e)
          with db mk full f fin assms l show ?thesis
            by (auto simp: create_backup_try_def Let_def)
        next
          case (Inr digest)
          with db mk full f fin assms l show ?thesis
            by (cases "stat_st_size env") (auto simp: create_backup_try_def Let_def)
        qed
      qed
    qed
  qed
qed

subsection \<open>The choice of strategy\<close>

text \<open>
  C6. A full backup that returns its final file has run exactly one of two strategies,
  chosen by \<open>parallel_jobs > 1 and compression != NONE\<close>. In the directory strategy it
  started \<open>pg_dump --format=directory --jobs=N\<close> on a directory below a temporary one,
  reported progress, wrote that directory to a tar archive (gzip, bzip2 or plain, with
  suffix \<open>.tar.gz\<close>, \<open>.tar.bz2\<close> or \<open>.tar\<close>) and removed the temporary directory. In
  every other case it started \<open>pg_dump --format=custom\<close> writing to the file with suffix
  \<open>.dump.gz\<close> for gzip, \<open>.dump.bz2\<close> for bzip2 and \<open>.dump\<close> otherwise, and reported
  progress: it did nothing else, so no compression is applied apart from \<open>pg_dump\<close>.
\<close>

theorem full_backup_strategy:
  assumes "create_full_backup env job f s = Some (s', Inr final)"
  shows "if parallel_jobs (backup_config job) > 1 \<and> compression (backup_config job) \<noteq> NONE
         then with_suffix f (tar_suffix (compression (backup_config job))) = Inr final
              \<and> (\<exists>stem. final = stem @ tar_suffix (compression (backup_config job)))
              \<and> (\<exists>tmp ups. mkdtemp env = Inr tmp \<and> events s' = events s @
                    [Exec ([''pg_dump''] @ connection_flags (source_config job)
                           @ [''--verbose'', ''--format=directory'',
                              ''--jobs='' @ str_int (parallel_jobs (backup_config job)),
                              ''--file'', tmp @ ''/'' @ path_stem f @ ''_dir'']
                           @ structure_flags (backup_config job) @ filter_flags (backup_config job))
                          [(''PGPASSWORD'', password (source_config job))]] @ ups
                    @ [Archive final (tar_mode (compression (backup_config job)))
                         (tmp @ ''/'' @ path_stem f @ ''_dir''),
                       Rmtree tmp]
                   \<and> list_all is_progress ups)
         else with_suffix f (custom_suffix (compression (backup_config job))) = Inr final
              \<and> (\<exists>stem. final = stem @ custom_suffix (compression (backup_config job)))
              \<and> (\<exists>ups. events s' = events s @
                    [Exec ([''pg_dump''] @ connection_flags (source_config job)
                           @ [''--verbose'', ''--format=custom'']
                           @ structure_flags (backup_config job) @ filter_flags (backup_config job)
                           @ [''--file'', final])
                          [(''PGPASSWORD'', password (source_config job))]] @ ups
                   \<and> list_all is_progress ups)"
proof (cases "parallel_jobs (backup_config job) > 1 \<and> compression (backup_config job) \<noteq> NONE")
  case True
  with assms have "create_parallel_backup env job f s = Some (s', Inr final)"
    by (simp add: create_full_backup_def)
  from create_parallel_backup_run(2) [OF this, of final]
  have w: "with_suffix f (tar_suffix (compression (backup_config job))) = Inr final"
    and e: "\<exists>tmp ups. mkdtemp env = Inr tmp \<and> events s' = events s @
                    [Exec ([''pg_dump''] @ connection_flags (source_config job)
                           @ [''--verbose'', ''--format=directory'',
                              ''--jobs='' @ str_int (parallel_jobs (backup_config job)),
                              ''--file'', tmp @ ''/'' @ path_stem f @ ''_dir'']
                           @ structure_flags (backup_config job) @ filter_flags (backup_config job))
                          [(''PGPASSWORD'', password (source_config job))]] @ ups
                    @ [Archive final (tar_mode (compression (backup_config job)))
                         (tmp @ ''/'' @ path_stem f @ ''_dir''),
                       Rmtree tmp]
                   \<and> list_all is_progress ups"
    by simp_all
  from w e with_suffix_ends [OF w] show ?thesis
    by (simp only: True if_True simp_thms)
next
  case False
  with assms have "create_custom_backup env job f s = Some (s', Inr final)"
    by (simp add: create_full_backup_def)
  from create_custom_backup_run(2) [OF this, of final]
  have w: "with_suffix f (custom_suffix (compression (backup_config job))) = Inr final"
    and e: "\<exists>ups. events s' = events s @
                    [Exec ([''pg_dump''] @ connection_flags (source_config job)
                           @ [''--verbose'', ''--format=custom'']
                           @ structure_flags (backup_config job) @ filter_flags (backup_config job)
                           @ [''--file'', final])
                          [(''PGPASSWORD'', password (source_config job))]] @ ups
                   \<and> list_all is_progress ups"
    by simp_all
  from w e with_suffix_ends [OF w] show ?thesis
    by (simp only: False if_False simp_thms)
qed


lemmas example_backup_defs =
  example_env_def example_idle_state_def example_job_def example_parallel_job_def
  example_config_def example_db_def example_run_def

lemmas backup_eval_defs =
  create_full_backup_def create_custom_backup_def create_parallel_backup_def
  archive_directory_def monitor_backup_process_def monitor_backup_loop.simps
  monitor_backup_poll_def with_suffix_def path_name_def path_suffix_def path_stem_def
  rfind_def connection_flags_def structure_flags_def filter_flags_def
  str_int_def str_nat.simps Let_def

theorem full_backup_strategy_witness:
  "(\<exists>s'. create_full_backup example_env example_job ''/backups/jobname_20200101_000000''
            example_idle_state
          = Some (s', Inr ''/backups/jobname_20200101_000000.dump.gz'')
        \<and> (\<exists>ups. events s' =
              [Exec [''pg_dump'', ''-hlocalhost'', ''-p5432'', ''-Upostgres'', ''-dshop'',
                     ''--verbose'', ''--format=custom'', ''--clean'', ''--no-owner'',
                     ''--no-privileges'', ''--file'',
                     ''/backups/jobname_20200101_000000.dump.gz'']
                    [(''PGPASSWORD'', ''secret'')]] @ ups
             \<and> list_all is_progress ups))
   \<and> (\<exists>s'. create_full_backup example_env example_parallel_job ''/backups/jobname_20200101_000000''
            example_idle_state
          = Some (s', Inr ''/backups/jobname_20200101_000000.tar.gz'')
        \<and> (\<exists>ups. events s' =
              [Exec [''pg_dump'', ''-hlocalhost'', ''-p5432'', ''-Upostgres'', ''-dshop'',
                     ''--verbose'', ''--format=directory'', ''--jobs=4'', ''--file'',
                     ''/tmp/tmpab12/jobname_20200101_000000_dir'', ''--clean'',
                     ''--no-owner'', ''--no-privileges'']
                    [(''PGPASSWORD'', ''secret'')]] @ ups
              @ [Archive ''/backups/jobname_20200101_000000.tar.gz'' ''w:gz''
                   ''/tmp/tmpab12/jobname_20200101_000000_dir'',
                 Rmtree ''/tmp/tmpab12'']
             \<and> list_all is_progress ups))"
proof
  have "map_option snd (create_full_backup example_env example_job
          ''/backups/jobname_20200101_000000'' example_idle_state)
        = Some (Inr ''/backups/jobname_20200101_000000.dump.gz'')"
    by (simp add: backup_eval_defs example_backup_defs)
  then obtain s' where r: "create_full_backup example_env example_job
          ''/backups/jobname_20200101_000000'' example_idle_state
        = Some (s', Inr ''/backups/jobname_20200101_000000.dump.gz'')" by auto
  from full_backup_strategy [OF r] r
  show "\<exists>s'. create_full_backup example_env example_job ''/backups/jobname_20200101_000000''
            example_idle_state
          = Some (s', Inr ''/backups/jobname_20200101_000000.dump.gz'')
        \<and> (\<exists>ups. events s' =
              [Exec [''pg_dump'', ''-hlocalhost'', ''-p5432'', ''-Upostgres'', ''-dshop'',
                     ''--verbose'', ''--format=custom'', ''--clean'', ''--no-owner'',
                     ''--no-privileges'', ''--file'',
                     ''/backups/jobname_20200101_000000.dump.gz'']
                    [(''PGPASSWORD'', ''secret'')]] @ ups
             \<and> list_all is_progress ups)"
    by (auto simp: example_backup_defs connection_flags_def structure_flags_def
          filter_flags_def str_int_def str_nat.simps)
next
  have "map_option snd (create_full_backup example_env example_parallel_job
          ''/backups/jobname_20200101_000000'' example_idle_state)
        = Some (Inr ''/backups/jobname_20200101_000000.tar.gz'')"
    by (simp add: backup_eval_defs example_backup_defs)
  then obtain s' where r: "create_full_backup example_env example_parallel_job
          ''/backups/jobname_20200101_000000'' example_idle_state
        = Some (s', Inr ''/backups/jobname_20200101_000000.tar.gz'')" by auto
  have st: "path_stem ''/backups/jobname_20200101_000000'' = ''jobname_20200101_000000''"
    by (simp add: path_stem_def path_name_def rfind_def)
  from full_backup_strategy [OF r] r st
  show "\<exists>s'. create_full_backup example_env example_parallel_job ''/backups/jobname_20200101_000000''
            example_idle_state
          = Some (s', Inr ''/backups/jobname_20200101_000000.tar.gz'')
        \<and> (\<exists>ups. events s' =
              [Exec [''pg_dump'', ''-hlocalhost'', ''-p5432'', ''-Upostgres'', ''-dshop'',
                     ''--verbose'', ''--format=directory'', ''--jobs=4'', ''--file'',
                     ''/tmp/tmpab12/jobname_20200101_000000_dir'', ''--clean'',
                     ''--no-owner'', ''--no-privileges'']
                    [(''PGPASSWORD'', ''secret'')]] @ ups
              @ [Archive ''/backups/jobname_20200101_000000.tar.gz'' ''w:gz''
                   ''/tmp/tmpab12/jobname_20200101_000000_dir'',
                 Rmtree ''/tmp/tmpab12'']
             \<and> list_all is_progress ups)"
    by (auto simp: example_backup_defs connection_flags_def structure_flags_def
          filter_flags_def str_int_def str_nat.simps tar_mode_def)
qed


subsection \<open>\<open>create_backup\<close> ends in a terminal result\<close>

lemma register_backup_frame:
  "length (heap (register_backup env s job cb)) = Suc (length (heap s))"
  by (simp add: register_backup_def Let_def split: option.splits)

text \<open>
  C4, as the code has it. When every external process that is started exits,
  \<open>create_backup\<close> returns or raises, and the job's id is then in neither registry. When
  the \<open>try\<close> block ends normally the result returned has status \<open>COMPLETED\<close>; when it
  raises an exception below \<open>Exception\<close> the result returned has status \<open>FAILED\<close> and the
  exception's message as its error message; an exception outside \<open>Exception\<close>
  (\<open>asyncio.CancelledError\<close>, \<open>KeyboardInterrupt\<close>, \<open>SystemExit\<close>) reaches the caller.
\<close>

theorem create_backup_terminal:
  assumes "processes_exit env"
  shows "\<exists>s1 out1 s' out.
      create_backup_try env job (length (heap s)) (register_backup env s job cb) = Some (s1, out1)
    \<and> create_backup env s job cb = Some (s', out)
    \<and> active_backups s' (id' job) = None \<and> progress_callbacks s' (id' job) = None
    \<and> (case out1 of
         Inr u \<Rightarrow> (\<exists>res. out = Inr res \<and> status res = COMPLETED)
       | Inl e \<Rightarrow>
           if is_Exception e
           then (\<exists>res. out = Inr res \<and> status res = FAILED
                   \<and> error_message res = Some (str_exc e))
           else out = Inl e)"
proof -
  let ?r = "length (heap s)"
  let ?s0 = "register_backup env s job cb"
  from create_backup_try_returns [OF assms, of job ?r ?s0]
  obtain s1 out1 where t: "create_backup_try env job ?r ?s0 = Some (s1, out1)" by blast
  from create_backup_try_run [OF t] register_backup_frame [of env s job cb]
  have l: "?r < length (heap s1)"
    and c: "out1 = Inr () \<longrightarrow> status (heap s1 ! ?r) = COMPLETED"
    by simp_all
  show ?thesis
  proof (cases out1)
    case (Inr u)
    with t c show ?thesis
      by (simp add: create_backup_def Let_def)
  next
    case (Inl e)
    with t l show ?thesis
      by (simp add: create_backup_def Let_def)
  qed
qed

text \<open>
  C4 as stated fails: when the task is cancelled while it awaits the database probe,
  \<open>CancelledError\<close> passes the handler \<open>except Exception\<close> and reaches the caller.
\<close>

theorem create_backup_cancelled_counterexample:
  "map_option snd (create_backup example_cancelled_env example_idle_state example_job (Some 7))
   = Some (Inl (Raised CancelledError []))"
  by (simp add: create_backup_def create_backup_try_def register_backup_def
        example_cancelled_env_def example_env_def example_idle_state_def example_job_def Let_def)


lemma example_try_succeeds:
  "map_option snd (create_backup_try example_env example_job 0
      (register_backup example_env example_idle_state example_job (Some 7))) = Some (Inr ())"
  by (simp add: create_backup_try_def create_full_backup_def create_custom_backup_def
        monitor_backup_process_def monitor_backup_loop.simps monitor_backup_poll_def
        register_backup_def get_backup_file_path_def with_suffix_def path_name_def
        path_suffix_def rfind_def connection_flags_def structure_flags_def filter_flags_def
        example_env_def example_idle_state_def example_job_def example_config_def
        example_db_def example_run_def str_int_def str_nat.simps get_int_def Let_def)

theorem create_backup_terminal_witness:
  "processes_exit example_env
   \<and> (\<exists>s' res. create_backup example_env example_idle_state example_job (Some 7) = Some (s', Inr res)
         \<and> status res = COMPLETED
         \<and> active_backups s' ''job1'' = None \<and> progress_callbacks s' ''job1'' = None)"
proof -
  have "returncode_at example_run 2 \<noteq> None" by (simp add: example_run_def)
  then have h: "processes_exit example_env"
    unfolding processes_exit_def by (auto simp: example_env_def)
  have i: "id' example_job = ''job1''" and z: "length (heap example_idle_state) = 0"
    by (simp_all add: example_job_def example_idle_state_def)
  from create_backup_terminal [OF h, of example_job example_idle_state "Some 7"]
  obtain s1 out1 s' out where
    a: "create_backup_try example_env example_job 0
          (register_backup example_env example_idle_state example_job (Some 7)) = Some (s1, out1)"
    and b: "create_backup example_env example_idle_state example_job (Some 7) = Some (s', out)"
    and c: "active_backups s' ''job1'' = None" "progress_callbacks s' ''job1'' = None"
    and d: "case out1 of
         Inr u \<Rightarrow> (\<exists>res. out = Inr res \<and> status res = COMPLETED)
       | Inl e \<Rightarrow>
           if is_Exception e
           then (\<exists>res. out = Inr res \<and> status res = FAILED
                   \<and> error_message res = Some (str_exc e))
           else out = Inl e"
    unfolding i z by blast
  from a example_try_succeeds have "out1 = Inr ()" by simp
  with d obtain res where "out = Inr res" "status res = COMPLETED" by auto
  with b c h show ?thesis by blast
qed

subsection \<open>Dispatch on the suffix of the artifact\<close>

text \<open>
  \<open>Path.suffix\<close> is empty or is one dot followed by characters other than a dot: it is
  never a chain of two extensions.
\<close>

lemma drop_last_occurrence:
  assumes "c \<in> set s"
  shows "drop (length s - Suc (length (takeWhile (\<lambda>x. x \<noteq> c) (rev s)))) s
         = c # rev (takeWhile (\<lambda>x. x \<noteq> c) (rev s))"
proof -
  let ?t = "takeWhile (\<lambda>x. x \<noteq> c) (rev s)"
  let ?d = "dropWhile (\<lambda>x. x \<noteq> c) (rev s)"
  from assms have "?d \<noteq> []" by (simp add: dropWhile_eq_Nil_conv)
  then obtain d' where d: "?d = c # d'"
    using hd_dropWhile [of "\<lambda>x. x \<noteq> c" "rev s"] by (cases ?d) auto
  have "rev s = ?t @ c # d'" using takeWhile_dropWhile_id [of "\<lambda>x. x \<noteq> c" "rev s"] d by simp
  then have s: "s = rev d' @ c # rev ?t" by (metis rev_append rev_rev_ident rev.simps(2) append_assoc append_Cons append_Nil)
  have "length s = length d' + Suc (length ?t)" by (subst s) simp
  then have "length s - Suc (length ?t) = length (rev d')" by simp
  then show ?thesis by (subst s, subst (2) s) simp
qed

lemma path_suffix_shape:
  "path_suffix p = [] \<or> (\<exists>rest. path_suffix p = CHR ''.'' # rest \<and> CHR ''.'' \<notin> set rest)"
proof (cases "CHR ''.'' \<in> set (path_name p)")
  case False
  then show ?thesis by (simp add: path_suffix_def rfind_def)
next
  case True
  let ?t = "takeWhile (\<lambda>x. x \<noteq> CHR ''.'') (rev (path_name p))"
  have "CHR ''.'' \<notin> set (rev ?t)"
    using set_takeWhileD [of "CHR ''.''" "\<lambda>x. x \<noteq> CHR ''.''" "rev (path_name p)"] by auto
  with True drop_last_occurrence [OF True] show ?thesis
    by (auto simp: path_suffix_def rfind_def Let_def)
qed

lemma path_suffix_single:
  "path_suffix p \<notin> set [''.dump.gz'', ''.dump.bz2'', ''.tar.gz'', ''.tar.bz2'', ''.sql.gz'']"
  using path_suffix_shape [of p] by auto


lemma path_name_append:
  "CHR ''/'' \<notin> set t \<Longrightarrow> path_name (p @ t) = path_name p @ t"
proof -
  assume "CHR ''/'' \<notin> set t"
  then have "takeWhile (\<lambda>c. c \<noteq> CHR ''/'') (rev t @ rev p)
             = rev t @ takeWhile (\<lambda>c. c \<noteq> CHR ''/'') (rev p)"
    by (intro takeWhile_append2) auto
  then show ?thesis by (simp add: path_name_def)
qed

lemma path_suffix_ext:
  assumes "CHR ''/'' \<notin> set x" and "x \<noteq> []" and "CHR ''.'' \<notin> set ext"
    and "CHR ''/'' \<notin> set ext" and "ext \<noteq> []"
  shows "path_suffix (p @ x @ CHR ''.'' # ext) = CHR ''.'' # ext"
proof -
  let ?nm = "path_name p @ x @ CHR ''.'' # ext"
  have nm: "path_name (p @ x @ CHR ''.'' # ext) = ?nm"
    using assms(1,4) path_name_append [of "x @ CHR ''.'' # ext" p] by simp
  have tw: "takeWhile (\<lambda>c. c \<noteq> CHR ''.'') (rev ?nm) = rev ext"
  proof -
    have r: "rev ?nm = rev ext @ CHR ''.'' # (rev x @ rev (path_name p))" by simp
    have "takeWhile (\<lambda>c. c \<noteq> CHR ''.'') (rev ext @ CHR ''.'' # (rev x @ rev (path_name p)))
          = rev ext @ takeWhile (\<lambda>c. c \<noteq> CHR ''.'') (CHR ''.'' # (rev x @ rev (path_name p)))"
      using assms(3) by (intro takeWhile_append2) auto
    then show ?thesis unfolding r by simp
  qed
  have mem: "CHR ''.'' \<in> set ?nm" by simp
  have dr: "drop (length ?nm - Suc (length ext)) ?nm = CHR ''.'' # ext"
    using drop_last_occurrence [OF mem] tw by simp
  have pos: "0 < length ?nm - Suc (length ext)" "Suc (length ?nm - Suc (length ext)) < length ?nm"
    using assms(2,5) by (cases x; cases ext; simp)+
  show ?thesis
    unfolding path_suffix_def nm Let_def rfind_def using mem tw dr pos by simp
qed

lemma path_suffix_compressed:
  "path_suffix (p @ ''.dump.gz'') = ''.gz''" "path_suffix (p @ ''.dump.bz2'') = ''.bz2''"
  "path_suffix (p @ ''.tar.gz'') = ''.gz''" "path_suffix (p @ ''.tar.bz2'') = ''.bz2''"
  "path_suffix (p @ ''.sql.gz'') = ''.gz''"
  using path_suffix_ext [of "''.dump''" "''gz''" p] path_suffix_ext [of "''.dump''" "''bz2''" p]
    path_suffix_ext [of "''.tar''" "''gz''" p] path_suffix_ext [of "''.tar''" "''bz2''" p]
    path_suffix_ext [of "''.sql''" "''gz''" p]
  by simp_all

lemma verify_rejects_unlisted:
  "path_suffix p \<notin> set [''.dump'', ''.tar'', ''.sql''] \<Longrightarrow> verify_backup_file env p = Inr False"
  using path_suffix_single [of p]
  by (simp add: verify_backup_file_def Let_def)


lemma register_restore_frame:
  "length (heap_r (register_restore env s f target cb)) = Suc (length (heap_r s))"
  by (simp add: register_restore_def Let_def split: option.splits)

lemma restore_backup_unverified:
  assumes "verify_backup_file (artifact env) f = Inr False"
  shows "\<exists>s' res. restore_backup env s f target cb = Some (s', Inr res)
           \<and> status_r res = FAILED
           \<and> error_message_r res = Some (''Backup file verification failed: '' @ f)"
  using assms register_restore_frame [of env s f target cb]
  by (simp add: restore_backup_def restore_backup_try_def Let_def)

text \<open>
  C1 on the code. The executor compares \<open>Path.suffix\<close>, the last extension only, with
  lists that contain \<open>.dump.gz\<close>, \<open>.tar.gz\<close> and \<open>.sql.gz\<close>. For every path that ends
  in one of these, the suffix is \<open>.gz\<close>, the verification of the file answers
  \<open>False\<close> whatever the file holds, and \<open>restore_backup\<close> returns a failed result with
  the message of the failed verification: the artifact is not handled as directory, custom
  or SQL format.
\<close>

theorem restore_rejects_compressed_artifacts:
  "verify_backup_file (artifact env) (p @ ''.tar.gz'') = Inr False
   \<and> verify_backup_file (artifact env) (p @ ''.dump.gz'') = Inr False
   \<and> verify_backup_file (artifact env) (p @ ''.sql.gz'') = Inr False
   \<and> (\<exists>s' res. restore_backup env s (p @ ''.tar.gz'') target cb = Some (s', Inr res)
          \<and> status_r res = FAILED
          \<and> error_message_r res = Some (''Backup file verification failed: '' @ p @ ''.tar.gz''))
   \<and> (\<exists>s' res. restore_backup env s (p @ ''.dump.gz'') target cb = Some (s', Inr res)
          \<and> status_r res = FAILED
          \<and> error_message_r res = Some (''Backup file verification failed: '' @ p @ ''.dump.gz''))
   \<and> (\<exists>s' res. restore_backup env s (p @ ''.sql.gz'') target cb = Some (s', Inr res)
          \<and> status_r res = FAILED
          \<and> error_message_r res = Some (''Backup file verification failed: '' @ p @ ''.sql.gz''))"
proof -
  have a: "verify_backup_file (artifact env) (p @ ''.tar.gz'') = Inr False"
    and b: "verify_backup_file (artifact env) (p @ ''.dump.gz'') = Inr False"
    and c: "verify_backup_file (artifact env) (p @ ''.sql.gz'') = Inr False"
    by (rule verify_rejects_unlisted, simp add: path_suffix_compressed)+
  from a b c restore_backup_unverified [OF a, of s target cb]
    restore_backup_unverified [OF b, of s target cb]
    restore_backup_unverified [OF c, of s target cb]
  show ?thesis by simp
qed

theorem restore_rejects_compressed_artifacts_witness:
  "verify_backup_file example_artifact ''backup.tar.gz'' = Inr False
   \<and> verify_backup_file example_artifact ''backup.dump.gz'' = Inr False
   \<and> verify_backup_file example_artifact ''backup.sql.gz'' = Inr False
   \<and> (\<exists>s' res. restore_backup (example_restore_env 20) example_idle_restore_state
                   ''backup.dump.gz'' example_db (Some 7) = Some (s', Inr res)
          \<and> status_r res = FAILED
          \<and> error_message_r res = Some ''Backup file verification failed: backup.dump.gz'')"
  using restore_rejects_compressed_artifacts
          [of "example_restore_env 20" "''backup''" example_idle_restore_state example_db "Some 7"]
  by (simp add: example_restore_env_def)

subsection \<open>Verification after a restore\<close>

lemma restore_custom_format_frame:
  assumes "restore_custom_format env f target rid s = Some (s', out)"
  shows "length (heap_r s') = length (heap_r s)"
  using assms
  by (auto simp: restore_custom_format_def Let_def
        split: sum.splits option.splits if_splits dest!: monitor_restore_process_frame(1))

lemma restore_directory_format_frame:
  assumes "restore_directory_format env f target rid s = Some (s', out)"
  shows "length (heap_r s') = length (heap_r s)"
  using assms
  by (auto simp: restore_directory_format_def Let_def
        split: sum.splits option.splits if_splits list.splits
        dest!: monitor_restore_process_frame(1))

lemma feed_psql_frame:
  assumes "feed_psql env target rid s = Some (s', out)"
  shows "length (heap_r s') = length (heap_r s)"
  using assms
  by (auto simp: feed_psql_def Let_def
        split: sum.splits option.splits if_splits dest!: monitor_restore_process_frame(1))

lemma restore_sql_format_frame:
  assumes "restore_sql_format env f target rid s = Some (s', out)"
  shows "length (heap_r s') = length (heap_r s)"
  using assms
  by (auto simp: restore_sql_format_def Let_def
        split: sum.splits option.splits if_splits dest!: feed_psql_frame)


text \<open>
  The float product: below \<open>2 ^ 53\<close> the conversion of the count is exact, and rounding
  to 53 significant bits lowers a number below \<open>2 ^ 103\<close> by at most \<open>2 ^ 49\<close>. So for a
  count of at most \<open>10 ^ 15\<close>, an integer below nine tenths of it is below the float
  product too.
\<close>

lemma bit_length_le: "n < 2 ^ k \<Longrightarrow> bit_length n \<le> k"
proof (induction k arbitrary: n)
  case 0
  then show ?case by (simp add: bit_length.simps)
next
  case (Suc k)
  show ?case
  proof (cases "n = 0")
    case True
    then show ?thesis by (simp add: bit_length.simps)
  next
    case False
    from Suc.prems have "n div 2 < 2 ^ k" by simp
    from Suc.IH [OF this] False show ?thesis by (subst bit_length.simps) simp
  qed
qed

lemma round53_exact: "n < 2 ^ 53 \<Longrightarrow> round53 n = n"
  using bit_length_le [of n 53] by (simp add: round53_def div_half_even_def)

lemma div_half_even_lower: "0 < d \<Longrightarrow> 2 * n \<le> 2 * (div_half_even n d * d) + d"
proof -
  assume d: "0 < d"
  have n: "n = n div d * d + n mod d" by simp
  have r: "n mod d < d" using d by simp
  define q where "q = n div d"
  define r where "r = n mod d"
  have "n = q * d + r" "r < d" using n r by (simp_all add: q_def r_def)
  then show ?thesis
    unfolding div_half_even_def Let_def q_def [symmetric] r_def [symmetric]
    by (auto simp: algebra_simps)
qed

lemma round53_lower:
  assumes "n < 2 ^ 103"
  shows "2 * n \<le> 2 * round53 n + 2 ^ 50"
proof -
  define sh where "sh = bit_length n - 53"
  have "sh \<le> 50" using bit_length_le [OF assms] by (simp add: sh_def)
  then have "(2::nat) ^ sh \<le> 2 ^ 50" by (intro power_increasing) simp_all
  moreover have "2 * n \<le> 2 * (div_half_even n (2 ^ sh) * 2 ^ sh) + 2 ^ sh"
    by (rule div_half_even_lower) simp
  ultimately show ?thesis by (simp add: round53_def sh_def [symmetric] Let_def)
qed

lemma less_than_nine_tenths_short:
  assumes "0 < backup_tables" and "backup_tables \<le> 1000000000000000"
    and "current_tables * 10 < backup_tables * 9"
  shows "less_than_nine_tenths current_tables backup_tables = Inr True"
proof -
  define b where "b = nat backup_tables"
  have b: "int b = backup_tables" using assms by (simp add: b_def)
  have b2: "b \<le> 1000000000000000" using assms by (simp add: b_def)
  have p53: "(2::nat) ^ 53 = 9007199254740992" by simp
  have p103: "(2::nat) ^ 103 = 10141204801825835211973625643008" by simp
  have p50: "(2::int) ^ 50 = 1125899906842624" by simp
  have pi53: "(2::int) ^ 53 = 9007199254740992" by simp
  have "b < 2 ^ 53" unfolding p53 using b2 by linarith
  then have f: "round53 b = b" by (rule round53_exact)
  have l: "bit_length b \<le> 53" using \<open>b < 2 ^ 53\<close> by (rule bit_length_le)
  have "b * 8106479329266893 < 2 ^ 103" unfolding p103 using b2 by linarith
  from round53_lower [OF this]
  have "int (2 * (b * 8106479329266893)) \<le> int (2 * round53 (b * 8106479329266893) + 2 ^ 50)"
    by (simp only: of_nat_le_iff)
  then have "2 * (int b * 8106479329266893) \<le> 2 * int (round53 (b * 8106479329266893)) + 2 ^ 50"
    by simp
  with assms(1,3) b have "current_tables * 2 ^ 53 < int (round53 (b * 8106479329266893))"
    unfolding p50 pi53 by linarith
  with f l show ?thesis
    by (simp add: less_than_nine_tenths_def times_point_nine_def b_def [symmetric])
qed


lemma verify_restoration_shortfall:
  assumes "get_database_info_r env = Inr db_info" and "db_info \<noteq> []"
    and "py_get backup_info ''tables_count'' (IntV 0) = IntV backup_tables"
    and "0 < backup_tables" and "backup_tables \<le> 1000000000000000"
    and "py_get db_info ''table_count'' (IntV 0) = IntV current_tables"
    and "current_tables * 10 < backup_tables * 9"
  shows "verify_restoration env backup_info s =
           (s\<lparr>events_r := events_r s @
                [Warning (''Table count mismatch: expected ''
                          @ str_int backup_tables @ '', got '' @ str_int current_tables)]\<rparr>,
            Inr True)"
  using assms(1-4,6) less_than_nine_tenths_short [OF assms(4,5,7)]
  by (simp add: verify_restoration_def)

lemma restore_by_format_frame:
  assumes "restore_by_format env f target rid backup_info s = Some (sa, out)"
  shows "length (heap_r sa) = length (heap_r s)"
  using assms restore_custom_format_frame restore_directory_format_frame
    restore_sql_format_frame
  by (auto simp: restore_by_format_def split: if_splits)

lemma restore_dispatch_verified:
  assumes "restore_by_format env f target rid backup_info s = Some (sa, Inr ())"
    and "verify_restoration env backup_info sa = (sb, Inr passed)"
  shows "restore_dispatch env f target rid r backup_info s =
           Some (sb\<lparr>heap_r := (heap_r sb)[r := (heap_r sb ! r)
                               \<lparr>status_r := COMPLETED,
                                end_time_r := Some (clock_end_r env),
                                verification_passed := passed,
                                tables_restored := get_int backup_info ''tables_count'' 0\<rparr>]\<rparr>,
                 Inr ())"
  using assms by (simp add: restore_dispatch_def)

lemma restore_backup_try_prepared:
  assumes "verify_backup_file (artifact env) f = Inr True"
    and "get_backup_info (artifact env) f = Inr backup_info"
    and "database_exists env = Inr present"
    and "(if present then drop_database env else Inr True) = Inr True"
    and "create_database env = Inr True"
  shows "restore_backup_try env f target rid r s
           = restore_dispatch env f target rid r backup_info s"
  using assms by (simp add: restore_backup_try_def)

text \<open>
  C8. When the steps of a restore before the verification succeed, the target database
  answers the probe, the table count recorded for the artifact is positive (and at most
  \<open>10 ^ 15\<close>, where the float product \<open>backup_tables * 0.9\<close> still separates the integers
  below nine tenths from the others) and the count of the restored database is below nine
  tenths of it, then \<open>restore_backup\<close> returns a result with status \<open>COMPLETED\<close> and
  \<open>verification_passed = True\<close>, and the last thing it did was to log the warning of the
  mismatch.
\<close>

theorem verification_shortfall_is_soft:
  assumes v: "verify_backup_file (artifact env) f = Inr True"
    and i: "get_backup_info (artifact env) f = Inr backup_info"
    and d: "database_exists env = Inr present"
      "(if present then drop_database env else Inr True) = Inr True"
      "create_database env = Inr True"
    and r: "restore_by_format env f target (''restore_'' @ str_int (time_time env)) backup_info
              (register_restore env s f target cb) = Some (sa, Inr ())"
    and q: "get_database_info_r env = Inr db_info" "db_info \<noteq> []"
    and b: "py_get backup_info ''tables_count'' (IntV 0) = IntV backup_tables"
      "0 < backup_tables" "backup_tables \<le> 1000000000000000"
    and c: "py_get db_info ''table_count'' (IntV 0) = IntV current_tables"
      "current_tables * 10 < backup_tables * 9"
  shows "\<exists>s' res. restore_backup env s f target cb = Some (s', Inr res)
           \<and> status_r res = COMPLETED \<and> verification_passed res
           \<and> events_r s' \<noteq> []
           \<and> last (events_r s') =
                Warning (''Table count mismatch: expected ''
                         @ str_int backup_tables @ '', got '' @ str_int current_tables)"
proof -
  let ?r = "length (heap_r s)"
  let ?s0 = "register_restore env s f target cb"
  let ?rid = "''restore_'' @ str_int (time_time env)"
  let ?w = "Warning (''Table count mismatch: expected ''
                     @ str_int backup_tables @ '', got '' @ str_int current_tables)"
  define sb where "sb = sa\<lparr>events_r := events_r sa @ [?w]\<rparr>"
  have l: "?r < length (heap_r sb)"
    using restore_by_format_frame [OF r] by (simp add: sb_def register_restore_frame)
  have "verify_restoration env backup_info sa = (sb, Inr True)"
    unfolding sb_def by (rule verify_restoration_shortfall [OF q b c])
  from restore_dispatch_verified [OF r this, of ?r]
  have "restore_backup_try env f target ?rid ?r ?s0 =
          Some (sb\<lparr>heap_r := (heap_r sb)[?r := (heap_r sb ! ?r)
                               \<lparr>status_r := COMPLETED,
                                end_time_r := Some (clock_end_r env),
                                verification_passed := True,
                                tables_restored := get_int backup_info ''tables_count'' 0\<rparr>]\<rparr>,
                Inr ())"
    by (simp add: restore_backup_try_prepared [OF v i d])
  with l show ?thesis
    by (simp add: restore_backup_def Let_def sb_def)
qed

lemma example_backup_info:
  "get_backup_info example_artifact ''backup.dump'' =
     Inr [(''file_path'', StrV ''backup.dump''), (''size_bytes'', IntV 4096),
          (''created_time'', StrV ''2020-01-01T00:00:00''),
          (''modified_time'', StrV ''2020-01-01T00:00:00''),
          (''format'', StrV ''custom''), (''tables_count'', IntV 10),
          (''functions_count'', IntV 0), (''triggers_count'', IntV 0)]"
  by code_simp

lemma example_verified: "verify_backup_file example_artifact ''backup.dump'' = Inr True"
  by code_simp

lemma example_restore_by_format:
  "map_option snd (restore_by_format (example_restore_env 5) ''backup.dump'' example_db
      (''restore_'' @ str_int (time_time (example_restore_env 5)))
      [(''file_path'', StrV ''backup.dump''), (''size_bytes'', IntV 4096),
       (''created_time'', StrV ''2020-01-01T00:00:00''),
       (''modified_time'', StrV ''2020-01-01T00:00:00''),
       (''format'', StrV ''custom''), (''tables_count'', IntV 10),
       (''functions_count'', IntV 0), (''triggers_count'', IntV 0)]
      (register_restore (example_restore_env 5) example_idle_restore_state ''backup.dump''
         example_db (Some 7))) = Some (Inr ())"
  by code_simp

theorem verification_shortfall_is_soft_witness:
  "get_backup_info (artifact (example_restore_env 5)) ''backup.dump'' =
     Inr [(''file_path'', StrV ''backup.dump''), (''size_bytes'', IntV 4096),
          (''created_time'', StrV ''2020-01-01T00:00:00''),
          (''modified_time'', StrV ''2020-01-01T00:00:00''),
          (''format'', StrV ''custom''), (''tables_count'', IntV 10),
          (''functions_count'', IntV 0), (''triggers_count'', IntV 0)]
   \<and> get_database_info_r (example_restore_env 5) = Inr [(''table_count'', IntV 5)]
   \<and> (\<exists>s' res. restore_backup (example_restore_env 5) example_idle_restore_state ''backup.dump''
                   example_db (Some 7) = Some (s', Inr res)
          \<and> status_r res = COMPLETED \<and> verification_passed res
          \<and> last (events_r s') = Warning ''Table count mismatch: expected 10, got 5'')"
proof -
  let ?info = "[(''file_path'', StrV ''backup.dump''), (''size_bytes'', IntV 4096),
          (''created_time'', StrV ''2020-01-01T00:00:00''),
          (''modified_time'', StrV ''2020-01-01T00:00:00''),
          (''format'', StrV ''custom''), (''tables_count'', IntV 10),
          (''functions_count'', IntV 0), (''triggers_count'', IntV 0)]"
  have v: "verify_backup_file (artifact (example_restore_env 5)) ''backup.dump'' = Inr True"
    using example_verified by (simp add: example_restore_env_def)
  have i: "get_backup_info (artifact (example_restore_env 5)) ''backup.dump'' = Inr ?info"
    using example_backup_info by (simp add: example_restore_env_def)
  have d: "database_exists (example_restore_env 5) = Inr False"
    "(if False then drop_database (example_restore_env 5) else Inr True) = Inr True"
    "create_database (example_restore_env 5) = Inr True"
    by (simp_all add: example_restore_env_def)
  have q: "get_database_info_r (example_restore_env 5) = Inr [(''table_count'', IntV 5)]"
    "[(''table_count'', IntV 5)] \<noteq> []"
    by (simp_all add: example_restore_env_def)
  have b: "py_get ?info ''tables_count'' (IntV 0) = IntV 10" "(0::int) < 10"
    "(10::int) \<le> 1000000000000000"
    by (simp_all add: py_get_def)
  have c: "py_get [(''table_count'', IntV 5)] ''table_count'' (IntV 0) = IntV 5"
    "(5::int) * 10 < 10 * 9"
    by (simp_all add: py_get_def)
  from example_restore_by_format obtain sa where
    r: "restore_by_format (example_restore_env 5) ''backup.dump'' example_db
      (''restore_'' @ str_int (time_time (example_restore_env 5))) ?info
      (register_restore (example_restore_env 5) example_idle_restore_state ''backup.dump''
         example_db (Some 7)) = Some (sa, Inr ())" by auto
  from verification_shortfall_is_soft [OF v i d r q b c]
  have "\<exists>s' res. restore_backup (example_restore_env 5) example_idle_restore_state ''backup.dump''
                   example_db (Some 7) = Some (s', Inr res)
          \<and> status_r res = COMPLETED \<and> verification_passed res
          \<and> last (events_r s') = Warning ''Table count mismatch: expected 10, got 5''"
    by (auto simp: str_int_def str_nat.simps)
  with i q(1) show ?thesis by blast
qed

subsection \<open>Validation of the include and exclude lists\<close>

text \<open>
  Python iterates a set in hash order; the order is a parameter \<open>hash_order\<close> of the model,
  of which only one fact is used: it keeps the elements.
\<close>

lemma conflicts_of_set:
  assumes "\<forall>xs. set (hash_order xs) = set xs"
  shows "set (conflicts_of hash_order xs ys) = set xs \<inter> set ys"
  using assms by (auto simp: conflicts_of_def)

lemma conflicts_of_empty:
  assumes "\<forall>xs. set (hash_order xs) = set xs"
  shows "conflicts_of hash_order xs ys = [] \<longleftrightarrow> set xs \<inter> set ys = {}"
  using conflicts_of_set [OF assms, of xs ys] by (metis set_empty)

text \<open>
  C7. For a configuration whose schema and table names are well formed and whose
  \<open>parallel_jobs\<close> lies between 1 and 32, \<open>validate_backup_config\<close> returns no error when
  the exclude and include lists of schemas are disjoint and those of tables are disjoint, and
  otherwise one error for each kind that overlaps, whose message lists exactly the names
  found in both lists.
\<close>

theorem validate_backup_config_conflicts:
  assumes order: "\<forall>xs. set (hash_order xs) = set xs"
    and jobs: "1 \<le> parallel_jobs config" "parallel_jobs config \<le> 32"
    and names: "list_all match_schema_name (exclude_schemas config)"
      "list_all match_schema_name (include_schemas config)"
      "list_all match_table_name (exclude_tables config)"
      "list_all match_table_name (include_tables config)"
  shows "validate_backup_config hash_order config =
           (if set (exclude_schemas config) \<inter> set (include_schemas config) = {} then []
            else [''Schemas cannot be both included and excluded: ''
                  @ join '', '' (conflicts_of hash_order (exclude_schemas config) (include_schemas config))])
           @ (if set (exclude_tables config) \<inter> set (include_tables config) = {} then []
              else [''Tables cannot be both included and excluded: ''
                    @ join '', '' (conflicts_of hash_order (exclude_tables config) (include_tables config))])
         \<and> set (conflicts_of hash_order (exclude_schemas config) (include_schemas config))
             = set (exclude_schemas config) \<inter> set (include_schemas config)
         \<and> set (conflicts_of hash_order (exclude_tables config) (include_tables config))
             = set (exclude_tables config) \<inter> set (include_tables config)"
proof -
  have f: "filter (\<lambda>x. \<not> P x) xs = []" if "list_all P xs" for P and xs :: "string list"
    using that by (induction xs) auto
  have e: "xs \<noteq> [] \<and> ys \<noteq> []" if "set xs \<inter> set ys \<noteq> {}" for xs ys :: "string list"
    using that by auto
  show ?thesis
    using jobs names conflicts_of_empty [OF order] conflicts_of_set [OF order]
    by (auto simp: validate_backup_config_def Let_def f dest: e)
qed


lemmas match_defs =
  match_schema_name_def match_table_name_def re_dollar_def is_identifier_def is_qualified_def
  ident_start_def ident_char_def Let_def

theorem validate_backup_config_conflicts_witness:
  "list_all match_schema_name (exclude_schemas example_conflicting_config)
   \<and> list_all match_table_name (include_tables example_conflicting_config)
   \<and> set (exclude_schemas example_conflicting_config)
       \<inter> set (include_schemas example_conflicting_config) = {''tmp''}
   \<and> validate_backup_config (\<lambda>xs. xs) example_conflicting_config
       = [''Schemas cannot be both included and excluded: tmp'']
   \<and> validate_backup_config (\<lambda>xs. xs) example_disjoint_config = []"
proof -
  have o: "\<forall>xs::string list. set ((\<lambda>xs. xs) xs) = set xs" by simp
  have j: "1 \<le> parallel_jobs example_conflicting_config"
    "parallel_jobs example_conflicting_config \<le> 32"
    "1 \<le> parallel_jobs example_disjoint_config" "parallel_jobs example_disjoint_config \<le> 32"
    by (simp_all add: example_conflicting_config_def example_disjoint_config_def example_config_def)
  have n: "list_all match_schema_name (exclude_schemas example_conflicting_config)"
    "list_all match_schema_name (include_schemas example_conflicting_config)"
    "list_all match_table_name (exclude_tables example_conflicting_config)"
    "list_all match_table_name (include_tables example_conflicting_config)"
    by (simp_all add: example_conflicting_config_def example_config_def match_defs)
  have m: "list_all match_schema_name (exclude_schemas example_disjoint_config)"
    "list_all match_schema_name (include_schemas example_disjoint_config)"
    "list_all match_table_name (exclude_tables example_disjoint_config)"
    "list_all match_table_name (include_tables example_disjoint_config)"
    by (simp_all add: example_disjoint_config_def example_config_def match_defs)
  have i: "set (exclude_schemas example_conflicting_config)
       \<inter> set (include_schemas example_conflicting_config) = {''tmp''}"
    by (auto simp: example_conflicting_config_def example_config_def)
  from validate_backup_config_conflicts [OF o j(1,2) n]
  have a: "validate_backup_config (\<lambda>xs. xs) example_conflicting_config
       = [''Schemas cannot be both included and excluded: tmp'']"
    by (simp add: example_conflicting_config_def example_config_def conflicts_of_def)
  from validate_backup_config_conflicts [OF o j(3,4) m]
  have b: "validate_backup_config (\<lambda>xs. xs) example_disjoint_config = []"
    by (simp add: example_disjoint_config_def example_config_def conflicts_of_def)
  from n(1) n(4) i a b show ?thesis by simp
qed

subsection \<open>The due check of the scheduler\<close>

lemma should_run_job_next:
  assumes "schedule job = Some expr" and "expr \<noteq> []" and "croniter expr now = Inr next_run"
  shows "should_run_job croniter job now
           = Inr (0 \<le> next_run - now \<and> next_run - now \<le> 60 * second_us)"
  using assms by (simp add: should_run_job_def)

lemma next_daily_after: "now < next_daily hour minute now"
proof -
  have "0 \<le> ((hour * 3600 + minute * 60) * second_us - now) mod day_us"
    by (simp add: day_us_def second_us_def)
  then show ?thesis by (auto simp: next_daily_def Let_def day_us_def second_us_def)
qed

lemma next_daily_time_of_day:
  assumes "0 \<le> hour" "hour < 24" "0 \<le> minute" "minute < 60"
  shows "next_daily hour minute now mod day_us = (hour * 3600 + minute * 60) * second_us"
proof -
  let ?fire = "(hour * 3600 + minute * 60) * second_us"
  have f: "0 \<le> ?fire" "?fire < day_us"
    using assms by (simp_all add: day_us_def second_us_def)
  have "(now + (?fire - now) mod day_us) mod day_us = ?fire mod day_us"
    by (metis add.commute diff_add_cancel mod_add_left_eq)
  moreover have "(now + day_us) mod day_us = now mod day_us" by simp
  moreover have "(?fire - now) mod day_us = 0 \<Longrightarrow> now mod day_us = ?fire mod day_us"
    by (metis add.commute add.right_neutral diff_add_cancel mod_add_left_eq)
  ultimately show ?thesis using f by (auto simp: next_daily_def Let_def)
qed

text \<open>
  C5. For a job with a cron expression, the due check answers whether the next fire time
  that \<open>croniter\<close> computes lies 0 to 60 seconds ahead of \<open>now\<close>; an exception of
  \<open>croniter\<close> below \<open>Exception\<close> makes the job not due. With the expression \<open>0 2 * * *\<close>
  the next fire time is the first 02:00:00 strictly after \<open>now\<close>, so the job is due
  exactly at the ticks from 01:59:00 up to, and not including, 02:00:00.
\<close>

theorem due_check_window:
  assumes "schedule job = Some expr" and "expr \<noteq> []"
  shows "should_run_job croniter job now =
           (case croniter expr now of
              Inl e \<Rightarrow> if is_Exception e then Inr False else Inl e
            | Inr next_run \<Rightarrow> Inr (0 \<le> next_run - now \<and> next_run - now \<le> 60 * second_us))
         \<and> (expr = ''0 2 * * *'' \<longrightarrow>
              should_run_job example_croniter job now =
                Inr (at_time 1 1 59 0 \<le> now mod day_us \<and> now mod day_us < at_time 1 2 0 0))"
proof -
  have a: "should_run_job croniter job now =
           (case croniter expr now of
              Inl e \<Rightarrow> if is_Exception e then Inr False else Inl e
            | Inr next_run \<Rightarrow> Inr (0 \<le> next_run - now \<and> next_run - now \<le> 60 * second_us))"
    for croniter
    using assms by (simp add: should_run_job_def split: sum.splits)
  have b: "(0 \<le> next_daily 2 0 now - now \<and> next_daily 2 0 now - now \<le> 60 * second_us)
             = (at_time 1 1 59 0 \<le> now mod day_us \<and> now mod day_us < at_time 1 2 0 0)"
  proof -
    define t where "t = now mod 86400000000"
    have t: "0 \<le> t" "t < 86400000000" by (simp_all add: t_def)
    have m: "(7200000000 - now) mod 86400000000 = (7200000000 - t) mod 86400000000"
      unfolding t_def by (simp add: mod_diff_right_eq)
    have c: "(7200000000 - t) mod 86400000000
               = (if t \<le> 7200000000 then 7200000000 - t else 93600000000 - t)"
    proof (cases "t \<le> 7200000000")
      case True
      then show ?thesis using t by simp
    next
      case False
      have e: "93600000000 - t = (7200000000 - t) + 86400000000" by simp
      have "(7200000000 - t) mod 86400000000 = (93600000000 - t) mod 86400000000"
        unfolding e by (simp only: mod_add_self2)
      also have "\<dots> = 93600000000 - t" using False t by simp
      finally show ?thesis using False by simp
    qed
    have "(0 \<le> next_daily 2 0 now - now \<and> next_daily 2 0 now - now \<le> 60 * second_us)
            = (7140000000 \<le> t \<and> t < 7200000000)"
      using t by (simp add: next_daily_def Let_def day_us_def second_us_def m c)
    then show ?thesis
      by (simp add: at_time_def day_us_def second_us_def t_def)
  qed
  from a [of croniter] a [of example_croniter] b show ?thesis
    by (auto simp: example_croniter_def)
qed

theorem due_check_at_020030_counterexample:
  "schedule example_job = Some ''0 2 * * *'' \<and> enabled example_job
   \<and> example_croniter ''0 2 * * *'' example_tick_020030 = Inr (at_time 738887 2 0 0)
   \<and> should_run_job example_croniter example_job example_tick_020030 = Inr False"
  by (simp add: should_run_job_def example_job_def example_croniter_def next_daily_def
        example_tick_020030_def at_time_def day_us_def second_us_def)

theorem due_check_window_witness:
  "should_run_job example_croniter example_job example_tick_015930 = Inr True
   \<and> should_run_job example_croniter example_job example_tick_020030 = Inr False
   \<and> should_run_job example_croniter example_job example_tick_020130 = Inr False"
proof -
  have s: "schedule example_job = Some ''0 2 * * *''" "''0 2 * * *'' \<noteq> []"
    by (simp_all add: example_job_def)
  from due_check_window [OF s, of example_croniter example_tick_015930]
    due_check_window [OF s, of example_croniter example_tick_020030]
    due_check_window [OF s, of example_croniter example_tick_020130]
  show ?thesis
    by (simp add: example_tick_015930_def example_tick_020030_def example_tick_020130_def
          example_croniter_def next_daily_def at_time_def day_us_def second_us_def)
qed

subsection \<open>The retention sweep\<close>

text \<open>
  The timestamp handed to \<open>strptime\<close> is the last piece of the stem between underscores,
  so it holds no underscore, while the format asks for one: no file name parses.
\<close>

lemma last_split_chr: "c \<notin> set (last (split_chr c s))"
proof (induction s)
  case Nil
  then show ?case by simp
next
  case (Cons x xs)
  have n: "split_chr c xs \<noteq> []" by (cases xs) (auto split: list.splits)
  show ?case
  proof (cases "x = c")
    case True
    with Cons n show ?thesis by simp
  next
    case False
    obtain p ps where p: "split_chr c xs = p # ps" using n by (cases "split_chr c xs") auto
    with Cons False show ?thesis by (cases ps) auto
  qed
qed

lemma match_classes_rest:
  "match_classes classes s = Some (matched, rest) \<Longrightarrow> set rest \<subseteq> set s"
proof (induction classes s arbitrary: matched rule: match_classes.induct)
  case (1 s)
  then show ?case by simp
next
  case (2 cls classes)
  then show ?case by simp
next
  case (3 cls classes c s)
  then show ?case by (auto split: if_splits option.splits)
qed

lemma match_group_rest:
  "(matched, rest) \<in> set (match_group g s) \<Longrightarrow> set rest \<subseteq> set s"
  using match_classes_rest by (fastforce simp: match_group_def List.map_filter_def)

lemma match_underscore:
  "CHR ''_'' \<notin> set s \<Longrightarrow> match_group [[''_'']] s = []"
  by (cases s) (auto simp: match_group_def List.map_filter_simps split: option.splits)

lemma match_groups_underscore:
  "CHR ''_'' \<notin> set s \<Longrightarrow> match_groups (gs @ [[''_'']] # gs') s = []"
proof (induction gs arbitrary: s)
  case Nil
  then show ?case by (simp add: match_underscore)
next
  case (Cons g gs)
  have "match_groups (gs @ [[''_'']] # gs') rest = []"
    if "(matched, rest) \<in> set (match_group g s)" for matched rest
    using match_group_rest [OF that] Cons.prems by (intro Cons.IH) auto
  then show ?case by auto
qed

lemma strptime_needs_underscore:
  assumes "CHR ''_'' \<notin> set s"
  shows "strptime s = Inl (Raised ValueError ''time data does not match format'')"
proof -
  have e: "format_regex =
          [[[digit, digit, digit, digit]],
           [[''1'', ''012''], [''0'', nonzero], [nonzero]],
           [[''3'', ''01''], [''12'', digit], [''0'', nonzero], [nonzero], ['' '', nonzero]]]
          @ [[''_'']]
          # [[[''2'', ''0123''], [''01'', digit], [digit]],
             [[''012345'', digit], [digit]],
             [[''6'', ''01''], [''012345'', digit], [digit]]]"
    by (simp add: format_regex_def)
  have "match_groups format_regex s = []"
    unfolding e by (rule match_groups_underscore [OF assms])
  then show ?thesis by (simp add: strptime_def)
qed

lemma retention_try_skips:
  "retention_try env cutoff_date f
     = ([], Some (Raised ValueError ''time data does not match format''))"
proof -
  have "split_chr (CHR ''_'') (path_stem f) \<noteq> []"
    by (cases "path_stem f") (auto split: list.splits)
  then show ?thesis
    by (simp add: retention_try_def Let_def strptime_needs_underscore [OF last_split_chr])
qed

lemma retention_loop_unlinks_nothing: "retention_loop env cutoff_date files = ([], None)"
  by (induction files) (simp_all add: retention_try_skips)

lemma handle_retention_unlinks_nothing: "handle_retention env job = ([], None)"
  by (simp add: handle_retention_def retention_loop_unlinks_nothing split: sum.splits)

text \<open>
  C2. The sweep of the example directory: the pattern yields the artifact of 1 January
  2020; its timestamp \<open>20200101_000000\<close> parses to a date before the cutoff, thirty days
  before 1 January 2024; the sweep hands \<open>strptime\<close> the piece \<open>000000\<close>, which does not
  parse, skips the file and unlinks nothing.
\<close>

theorem retention_keeps_expired_backup:
  "dir_exists example_sweep_env (backup_dir example_job)
   \<and> dir_glob example_sweep_env (backup_dir example_job) (name example_job @ ''_*'')
       = [''/backups/jobname_20200101_000000.sql'']
   \<and> minus_days (datetime_now example_sweep_env) (retention_days example_job)
       = Inr (at_time 738856 2 0 30)
   \<and> strptime ''20200101_000000'' = Inr (at_time 737425 0 0 0)
   \<and> at_time 737425 0 0 0 < at_time 738856 2 0 30
   \<and> file_unlink example_sweep_env ''/backups/jobname_20200101_000000.sql'' = None
   \<and> last (split_chr (CHR ''_'') (path_stem ''/backups/jobname_20200101_000000.sql''))
       = ''000000''
   \<and> strptime ''000000'' = Inl (Raised ValueError ''time data does not match format'')
   \<and> handle_retention example_sweep_env example_job = ([], None)"
proof -
  have a: "dir_exists example_sweep_env (backup_dir example_job)"
    "dir_glob example_sweep_env (backup_dir example_job) (name example_job @ ''_*'')
       = [''/backups/jobname_20200101_000000.sql'']"
    "file_unlink example_sweep_env ''/backups/jobname_20200101_000000.sql'' = None"
    by (simp_all add: example_sweep_env_def example_job_def)
  have b: "minus_days (datetime_now example_sweep_env) (retention_days example_job)
       = Inr (at_time 738856 2 0 30)"
    "at_time 737425 0 0 0 < at_time 738856 2 0 30"
    by (simp_all add: minus_days_def example_sweep_env_def example_job_def
          example_tick_020030_def at_time_def day_us_def second_us_def)
  have c: "strptime ''20200101_000000'' = Inr (at_time 737425 0 0 0)"
    by code_simp
  have d: "last (split_chr (CHR ''_'') (path_stem ''/backups/jobname_20200101_000000.sql''))
       = ''000000''"
    by code_simp
  have e: "strptime ''000000'' = Inl (Raised ValueError ''time data does not match format'')"
    by code_simp
  have f: "handle_retention example_sweep_env example_job = ([], None)"
    by code_simp
  from a b c d e f show ?thesis by simp
qed

end
